theory Spec2Isabelle
  imports Complex_Main "HOL-Library.Word" "HOL-Library.Multiset"
begin

text \<open>
  Collections of definitions: of the model, of the examples, and of the long texts of the
  examples. The simplifier unfolds them to run the model on an example.
\<close>

named_theorems js_defs
named_theorems ex_defs
named_theorems ex_text

section \<open>JavaScript values as the handler sees them\<close>

text \<open>
  The program is \<^verbatim>\<open>src/api/index.js\<close>, lines 1 to 185: one request handler over a
  module-level cache \<^verbatim>\<open>runtimeNewsCache\<close> and the file \<^verbatim>\<open>data.json\<close>. (The text after the
  separator in that file is a second copy of the module that adds an upload route and is
  otherwise the same.)

  A JavaScript string is a sequence of 16-bit code units. String literals of the source
  are ASCII and are written with \<open>lit\<close>.
\<close>

type_synonym jsstring = "16 word list"

definition lit :: "string \<Rightarrow> jsstring" where
  [ex_defs, ex_text]: "lit s = map of_char s"

text \<open>
  Every value the handler inspects comes out of \<^verbatim>\<open>JSON.parse\<close> or is an object literal of
  strings, so values are JSON values. A number is the value of the double it parsed to
  (\<open>-0\<close> and \<open>0\<close> are not told apart: both are falsy, print as \<^verbatim>\<open>0\<close> and are the same set
  key; a number token beyond the range of the doubles, which parses to an infinity, is
  outside the model). \<^verbatim>\<open>undefined\<close>, the result of reading a property that is not there, is
  \<open>None\<close> of \<open>jsvalue option\<close>. An object is its list of own properties; \<^verbatim>\<open>JSON.parse\<close> keeps
  one value for each name.
\<close>

datatype jsvalue =
    JNull
  | JBool bool
  | JNum rat
  | JStr jsstring
  | JArr "jsvalue list"
  | JObj "(jsstring \<times> jsvalue) list"

text \<open>
  Exceptions: the \<^verbatim>\<open>TypeError\<close> of the language (a failed conversion, an invalid URL) and
  the system error of a failed file operation.
\<close>

datatype error = TypeError | IOError

text \<open>
  What the runtime and the libraries supply and the module only calls: the process
  environment, \<^verbatim>\<open>JSON.parse\<close> (\<open>None\<close> when it throws), \<^verbatim>\<open>JSON.stringify\<close>, the two functions
  of \<^verbatim>\<open>jsonwebtoken\<close> (\<open>jwt_verify token secret\<close> is \<open>None\<close> when it throws),
  \<^verbatim>\<open>Date.parse\<close> (\<open>None\<close> is \<^verbatim>\<open>NaN\<close>), the number-to-string conversion outside the range of
  exactly printed integers, and the path name of \<^verbatim>\<open>new URL(u, "http://localhost")\<close>
  (\<open>None\<close> when the constructor throws).
\<close>

record platform =
  process_env :: "jsstring \<Rightarrow> jsstring option"
  JSON_parse :: "jsstring \<Rightarrow> jsvalue option"
  JSON_stringify :: "jsvalue \<Rightarrow> jsstring"
  jwt_verify :: "jsstring \<Rightarrow> jsstring \<Rightarrow> jsvalue option"
  jwt_sign :: "jsvalue \<Rightarrow> jsstring \<Rightarrow> jsstring \<Rightarrow> jsstring"
  Date_parse :: "jsstring \<Rightarrow> int option"
  Number_toString_other :: "rat \<Rightarrow> jsstring"
  URL_pathname :: "jsstring \<Rightarrow> jsstring option"

subsection \<open>Property access, truthiness, set membership\<close>

text \<open>
  \<^verbatim>\<open>v?.k\<close> for the property names the module reads (\<^verbatim>\<open>id\<close>, \<^verbatim>\<open>createdAt\<close>, \<^verbatim>\<open>news\<close>, \<^verbatim>\<open>text\<close>,
  \<^verbatim>\<open>source\<close>, \<^verbatim>\<open>imageUrl\<close>, \<^verbatim>\<open>username\<close>, \<^verbatim>\<open>password\<close>): none of them is defined on a
  prototype, so only an object with such an own property yields a value.
\<close>

fun Get :: "jsvalue \<Rightarrow> jsstring \<Rightarrow> jsvalue option" where
  "Get (JObj kvs) k = map_of kvs k"
| "Get _ k = None"

fun truthy :: "jsvalue \<Rightarrow> bool" where
  "truthy JNull = False"
| "truthy (JBool b) = b"
| "truthy (JNum q) = (q \<noteq> 0)"
| "truthy (JStr s) = (s \<noteq> [])"
| "truthy (JArr xs) = True"
| "truthy (JObj kvs) = True"

text \<open>
  \<^verbatim>\<open>Set.prototype.has\<close> compares with SameValueZero: primitives by value, objects by
  reference. Every object and array in a parsed document is a reference of its own, so
  two object-valued keys are never the same key.
\<close>

fun SameValueZero :: "jsvalue \<Rightarrow> jsvalue \<Rightarrow> bool" where
  "SameValueZero JNull JNull = True"
| "SameValueZero (JBool a) (JBool b) = (a = b)"
| "SameValueZero (JNum a) (JNum b) = (a = b)"
| "SameValueZero (JStr a) (JStr b) = (a = b)"
| "SameValueZero _ _ = False"

definition Set_has :: "jsvalue list \<Rightarrow> jsvalue \<Rightarrow> bool" where
  [js_defs]: "Set_has seen v = list_ex (\<lambda>u. SameValueZero u v) seen"

subsection \<open>Conversion to string\<close>

fun digits10 :: "nat \<Rightarrow> jsstring" where
  "digits10 n = (if n < 10 then [of_nat (48 + n)]
                 else digits10 (n div 10) @ [of_nat (48 + n mod 10)])"

declare digits10.simps [simp del]

text \<open>
  \<^verbatim>\<open>Number::toString\<close>: an integer of magnitude at most \<open>2^53\<close> prints as its decimal
  digits; every other number is printed by the runtime's shortest-round-trip algorithm.
\<close>

definition Number_toString :: "platform \<Rightarrow> rat \<Rightarrow> jsstring" where
  [js_defs]: "Number_toString P q =
     (if of_int \<lfloor>q\<rfloor> = q \<and> \<bar>q\<bar> \<le> 9007199254740992
      then (if q < 0 then lit ''-'' @ digits10 (nat (- \<lfloor>q\<rfloor>)) else digits10 (nat \<lfloor>q\<rfloor>))
      else Number_toString_other P q)"

text \<open>
  \<^verbatim>\<open>ToString\<close>. An array converts through \<^verbatim>\<open>Array.prototype.join\<close>: \<^verbatim>\<open>null\<close> elements are
  empty, the others are converted in turn. A plain object converts through
  \<^verbatim>\<open>OrdinaryToPrimitive\<close>: its \<^verbatim>\<open>toString\<close> is \<^verbatim>\<open>Object.prototype.toString\<close> unless the object
  has an own property of that name; a parsed own property is never callable, and
  \<^verbatim>\<open>valueOf\<close> never yields a primitive, so such an object raises \<^verbatim>\<open>TypeError\<close>.
\<close>

fun ToString :: "platform \<Rightarrow> jsvalue \<Rightarrow> error + jsstring"
  and Array_join :: "platform \<Rightarrow> jsvalue list \<Rightarrow> error + jsstring" where
  "ToString P JNull = Inr (lit ''null'')"
| "ToString P (JBool b) = Inr (if b then lit ''true'' else lit ''false'')"
| "ToString P (JNum q) = Inr (Number_toString P q)"
| "ToString P (JStr s) = Inr s"
| "ToString P (JArr xs) = Array_join P xs"
| "ToString P (JObj kvs) =
     (if lit ''toString'' \<in> fst ` set kvs then Inl TypeError
      else Inr (lit ''[object Object]''))"
| "Array_join P [] = Inr []"
| "Array_join P (x # xs) =
     (case (if x = JNull then Inr [] else ToString P x) of
        Inl e \<Rightarrow> Inl e
      | Inr s \<Rightarrow>
          if xs = [] then Inr s
          else (case Array_join P xs of
                  Inl e \<Rightarrow> Inl e
                | Inr r \<Rightarrow> Inr (s @ lit '','' @ r)))"

text \<open>\<^verbatim>\<open>String.prototype.trim\<close> strips white space and line terminators at both ends.\<close>

definition isLineTerminator :: "16 word \<Rightarrow> bool" where
  [js_defs]: "isLineTerminator c \<longleftrightarrow> c \<in> {0x000A, 0x000D, 0x2028, 0x2029}"

definition isWhiteSpace :: "16 word \<Rightarrow> bool" where
  [js_defs]: "isWhiteSpace c \<longleftrightarrow>
     c \<in> {0x0009, 0x000B, 0x000C, 0x0020, 0x00A0, 0x1680, 0x202F, 0x205F, 0x3000, 0xFEFF}
     \<or> (0x2000 \<le> c \<and> c \<le> 0x200A)"

definition isSpace :: "16 word \<Rightarrow> bool" where
  [js_defs]: "isSpace c \<longleftrightarrow> isWhiteSpace c \<or> isLineTerminator c"

definition trim :: "jsstring \<Rightarrow> jsstring" where
  [js_defs]: "trim s = rev (dropWhile isSpace (rev (dropWhile isSpace s)))"

subsection \<open>Dates\<close>

definition TimeClip :: "rat \<Rightarrow> int option" where
  [js_defs]: "TimeClip q = (if \<bar>q\<bar> > 8640000000000000 then None
                 else Some (if 0 \<le> q then \<lfloor>q\<rfloor> else \<lceil>q\<rceil>))"

text \<open>
  \<^verbatim>\<open>new Date(v).getTime()\<close>: \<open>Inr None\<close> is \<^verbatim>\<open>NaN\<close>. \<^verbatim>\<open>undefined\<close> gives \<^verbatim>\<open>NaN\<close>; an object or
  array is first converted to a primitive, which is its string or a \<^verbatim>\<open>TypeError\<close>; a
  string is parsed; \<^verbatim>\<open>null\<close>, booleans and numbers are taken as numbers of milliseconds.
\<close>

definition Date_getTime :: "platform \<Rightarrow> jsvalue option \<Rightarrow> error + int option" where
  [js_defs]: "Date_getTime P v =
     (case v of
        None \<Rightarrow> Inr None
      | Some JNull \<Rightarrow> Inr (Some 0)
      | Some (JBool b) \<Rightarrow> Inr (Some (if b then 1 else 0))
      | Some (JNum q) \<Rightarrow> Inr (TimeClip q)
      | Some (JStr s) \<Rightarrow> Inr (Date_parse P s)
      | Some j \<Rightarrow> (case ToString P j of Inl e \<Rightarrow> Inl e | Inr s \<Rightarrow> Inr (Date_parse P s)))"

subsection \<open>Sorting\<close>

text \<open>
  \<^verbatim>\<open>Array.prototype.sort\<close> with a comparison function. The language fixes the result when
  the comparison is consistent: the sort is stable. A \<^verbatim>\<open>NaN\<close> from the comparison counts as
  \<open>0\<close>; with an inconsistent comparison the order is the implementation's. An exception
  of the comparison function leaves the sort, and in an array of two or more elements
  every element is compared at least once. The model is the stable insertion sort;
  \<open>cmp a b \<le> 0\<close> keeps \<open>a\<close> before \<open>b\<close>.
\<close>

definition SortCompare :: "('a \<Rightarrow> 'a \<Rightarrow> error + int option) \<Rightarrow> 'a \<Rightarrow> 'a \<Rightarrow> error + int" where
  [js_defs]: "SortCompare cmp a b =
     (case cmp a b of Inl e \<Rightarrow> Inl e | Inr None \<Rightarrow> Inr 0 | Inr (Some v) \<Rightarrow> Inr v)"

fun sort_insert :: "('a \<Rightarrow> 'a \<Rightarrow> error + int option) \<Rightarrow> 'a \<Rightarrow> 'a list \<Rightarrow> error + 'a list" where
  "sort_insert cmp x [] = Inr [x]"
| "sort_insert cmp x (y # ys) =
     (case SortCompare cmp x y of
        Inl e \<Rightarrow> Inl e
      | Inr v \<Rightarrow>
          if v \<le> 0 then Inr (x # y # ys)
          else (case sort_insert cmp x ys of Inl e \<Rightarrow> Inl e | Inr zs \<Rightarrow> Inr (y # zs)))"

fun Array_sort :: "('a \<Rightarrow> 'a \<Rightarrow> error + int option) \<Rightarrow> 'a list \<Rightarrow> error + 'a list" where
  "Array_sort cmp [] = Inr []"
| "Array_sort cmp (x # xs) =
     (case Array_sort cmp xs of Inl e \<Rightarrow> Inl e | Inr ys \<Rightarrow> sort_insert cmp x ys)"

section \<open>The news repository\<close>

text \<open>
  The file system as far as the module uses it: what \<^verbatim>\<open>fs.readFileSync(DATA_PATH)\<close>
  returns (\<open>None\<close> when it throws: no file, no permission) and whether
  \<^verbatim>\<open>fs.writeFileSync(DATA_PATH)\<close> succeeds.
\<close>

record filesystem =
  content :: "jsstring option"
  writable :: bool

text \<open>
  The object literal of the handler (lines 162 to 168): the only values that ever enter
  \<^verbatim>\<open>runtimeNewsCache\<close>. \<open>item_obj\<close> is the object itself, with its properties in order.
\<close>

record news_item =
  item_id :: jsstring
  item_text :: jsstring
  item_source :: jsstring
  item_imageUrl :: jsstring
  item_createdAt :: jsstring

definition item_obj :: "news_item \<Rightarrow> jsvalue" where
  [js_defs]: "item_obj it =
     JObj [(lit ''id'', JStr (item_id it)),
           (lit ''text'', JStr (item_text it)),
           (lit ''source'', JStr (item_source it)),
           (lit ''imageUrl'', JStr (item_imageUrl it)),
           (lit ''createdAt'', JStr (item_createdAt it))]"

text \<open>The state: \<^verbatim>\<open>runtimeNewsCache\<close> (\<open>None\<close> is \<^verbatim>\<open>null\<close>) and the file system.\<close>

record server =
  runtimeNewsCache :: "news_item list option"
  fs :: filesystem

text \<open>
  \<^verbatim>\<open>readNewsFromFile\<close>: every exception inside the \<^verbatim>\<open>try\<close> gives the empty array, also the
  \<^verbatim>\<open>TypeError\<close> of \<^verbatim>\<open>parsed.news\<close> on \<^verbatim>\<open>null\<close>.
\<close>

definition readNewsFromFile :: "platform \<Rightarrow> filesystem \<Rightarrow> jsvalue list" where
  [js_defs]: "readNewsFromFile P f =
     (case content f of
        None \<Rightarrow> []
      | Some raw \<Rightarrow>
          (case JSON_parse P raw of
             None \<Rightarrow> []
           | Some JNull \<Rightarrow> []
           | Some parsed \<Rightarrow>
               (case Get parsed (lit ''news'') of Some (JArr xs) \<Rightarrow> xs | _ \<Rightarrow> [])))"

text \<open>The loop of \<^verbatim>\<open>getAllNews\<close> over \<^verbatim>\<open>[...cacheNews, ...fileNews]\<close>, with \<open>seen\<close> and \<open>merged\<close>.\<close>

fun merge_loop :: "jsvalue list \<Rightarrow> jsvalue list \<Rightarrow> jsvalue list \<Rightarrow> jsvalue list" where
  "merge_loop [] seen merged = merged"
| "merge_loop (n # ns) seen merged =
     (case Get n (lit ''id'') of
        None \<Rightarrow> merge_loop ns seen merged
      | Some i \<Rightarrow>
          if \<not> truthy i \<or> Set_has seen i then merge_loop ns seen merged
          else merge_loop ns (seen @ [i]) (merged @ [n]))"

text \<open>
  The comparison function of the sort,
  \<^verbatim>\<open>(a, b) => new Date(b.createdAt).getTime() - new Date(a.createdAt).getTime()\<close>.
  Both times are integers of magnitude at most \<open>8.64e15\<close>, so the double subtraction
  has the sign of the exact difference.
\<close>

definition byCreatedAt :: "platform \<Rightarrow> jsvalue \<Rightarrow> jsvalue \<Rightarrow> error + int option" where
  [js_defs]: "byCreatedAt P a b =
     (case Date_getTime P (Get b (lit ''createdAt'')) of
        Inl e \<Rightarrow> Inl e
      | Inr tb \<Rightarrow>
          (case Date_getTime P (Get a (lit ''createdAt'')) of
             Inl e \<Rightarrow> Inl e
           | Inr ta \<Rightarrow>
               Inr (case (tb, ta) of (Some x, Some y) \<Rightarrow> Some (x - y) | _ \<Rightarrow> None)))"

text \<open>The array \<^verbatim>\<open>merged\<close> of \<^verbatim>\<open>getAllNews\<close> when the loop has ended.\<close>

definition merged_news :: "platform \<Rightarrow> server \<Rightarrow> jsvalue list" where
  [js_defs]: "merged_news P s =
     (let fileNews = readNewsFromFile P (fs s);
          cacheNews = (case runtimeNewsCache s of Some xs \<Rightarrow> map item_obj xs | None \<Rightarrow> [])
      in merge_loop (cacheNews @ fileNews) [] [])"

definition getAllNews :: "platform \<Rightarrow> server \<Rightarrow> error + jsvalue list" where
  [js_defs]: "getAllNews P s = Array_sort (byCreatedAt P) (merged_news P s)"

section \<open>Configuration and responses\<close>

text \<open>\<^verbatim>\<open>process.env.X || "default"\<close>: an unset or empty variable gives the default.\<close>

definition env_or :: "platform \<Rightarrow> string \<Rightarrow> string \<Rightarrow> jsstring" where
  [js_defs]: "env_or P name dflt =
     (case process_env P (lit name) of
        Some v \<Rightarrow> if v \<noteq> [] then v else lit dflt
      | None \<Rightarrow> lit dflt)"

definition JWT_SECRET :: "platform \<Rightarrow> jsstring" where
  [js_defs]: "JWT_SECRET P = env_or P ''JWT_SECRET'' ''dev_secret_change_me''"

definition ADMIN_USER :: "platform \<Rightarrow> jsstring" where
  [js_defs]: "ADMIN_USER P = env_or P ''ADMIN_USER'' ''admin''"

definition ADMIN_PASSWORD :: "platform \<Rightarrow> jsstring" where
  [js_defs]: "ADMIN_PASSWORD P = env_or P ''ADMIN_PASSWORD'' ''password''"

text \<open>
  The request as the handler reads it: method, URL, the \<^verbatim>\<open>authorization\<close> header (\<open>None\<close>
  when absent) and what \<^verbatim>\<open>readBody\<close> resolves to (\<open>None\<close> when the stream fails). The values
  the handler draws from the clock and the random generator while it builds an item are
  \<^verbatim>\<open>Math.random().toString(36)\<close>, \<^verbatim>\<open>Date.now().toString(36)\<close> and \<^verbatim>\<open>new Date().toISOString()\<close>.
\<close>

record request =
  http_method :: jsstring
  url :: jsstring
  authorization :: "jsstring option"
  body :: "jsstring option"

record ambient =
  random36 :: jsstring
  now36 :: jsstring
  nowISO :: jsstring

text \<open>
  The response object: status code, headers, and the object handed to
  \<^verbatim>\<open>res.end(JSON.stringify(obj))\<close> (\<open>None\<close> for \<^verbatim>\<open>res.end()\<close>).
\<close>

record response =
  statusCode :: nat
  headers :: "(jsstring \<times> jsstring) list"
  payload :: "jsvalue option"

definition fresh_response :: response where
  [js_defs]: "fresh_response = \<lparr>statusCode = 200, headers = [], payload = None\<rparr>"

definition setHeader :: "string \<Rightarrow> string \<Rightarrow> response \<Rightarrow> response" where
  [js_defs]: "setHeader k v res =
     res\<lparr>headers := filter (\<lambda>h. fst h \<noteq> lit k) (headers res) @ [(lit k, lit v)]\<rparr>"

definition json :: "response \<Rightarrow> nat \<Rightarrow> jsvalue \<Rightarrow> response" where
  [js_defs]: "json res status obj =
     (setHeader ''Content-Type'' ''application/json; charset=utf-8''
        (res\<lparr>statusCode := status\<rparr>))\<lparr>payload := Some obj\<rparr>"

definition badRequest :: "response \<Rightarrow> string \<Rightarrow> response" where
  [js_defs]: "badRequest res msg =
     json res 400 (JObj [(lit ''ok'', JBool False), (lit ''error'', JStr (lit msg))])"

text \<open>\<^verbatim>\<open>unauthorized(res, msg = "Unauthorized")\<close>: \<open>None\<close> is the omitted argument.\<close>

definition unauthorized :: "response \<Rightarrow> string option \<Rightarrow> response" where
  [js_defs]: "unauthorized res msg =
     json res 401
       (JObj [(lit ''ok'', JBool False),
              (lit ''error'', JStr (lit (case msg of None \<Rightarrow> ''Unauthorized'' | Some m \<Rightarrow> m)))])"

definition notFound :: "response \<Rightarrow> response" where
  [js_defs]: "notFound res =
     json res 404 (JObj [(lit ''ok'', JBool False), (lit ''error'', JStr (lit ''Not found''))])"

definition cors :: "response \<Rightarrow> response" where
  [js_defs]: "cors res =
     setHeader ''Access-Control-Allow-Headers'' ''Content-Type, Authorization''
       (setHeader ''Access-Control-Allow-Methods'' ''GET,POST,OPTIONS''
          (setHeader ''Access-Control-Allow-Origin'' ''*'' res))"

section \<open>Authentication\<close>

text \<open>
  \<^verbatim>\<open>auth.match(/^Bearer\s+(.+)$/i)\<close>, giving the captured group. Without the \<^verbatim>\<open>u\<close> flag
  only the ASCII letters of either case match the letters of \<^verbatim>\<open>Bearer\<close>. \<^verbatim>\<open>\s+\<close> is greedy
  and gives back one character at a time; \<^verbatim>\<open>.\<close> matches everything but a line terminator
  and \<^verbatim>\<open>$\<close> only the end of the input.
\<close>

definition toUpperASCII :: "16 word \<Rightarrow> 16 word" where
  [js_defs]: "toUpperASCII c = (if 0x61 \<le> c \<and> c \<le> 0x7A then c - 0x20 else c)"

definition match_Bearer :: "jsstring \<Rightarrow> jsstring option" where
  [js_defs]: "match_Bearer auth =
     (if map toUpperASCII (take 6 auth) = lit ''BEARER'' then
        (let r = drop 6 auth;
             k = length (takeWhile isSpace r)
         in find (\<lambda>c. c \<noteq> [] \<and> \<not> list_ex isLineTerminator c)
                 (map (\<lambda>i. drop i r) (rev [1..<Suc k])))
      else None)"

text \<open>\<^verbatim>\<open>verifyJWT\<close>: \<open>Some payload\<close> is \<^verbatim>\<open>{ok: true, payload}\<close>, \<open>None\<close> is \<^verbatim>\<open>{ok: false}\<close>.\<close>

definition verifyJWT :: "platform \<Rightarrow> request \<Rightarrow> jsvalue option" where
  [js_defs]: "verifyJWT P req =
     (let auth = (case authorization req of Some a \<Rightarrow> a | None \<Rightarrow> [])
      in case match_Bearer auth of
           None \<Rightarrow> None
         | Some token \<Rightarrow> jwt_verify P token (JWT_SECRET P))"

section \<open>The handler\<close>

definition makeId :: "ambient \<Rightarrow> jsstring" where
  [js_defs]: "makeId amb = lit ''n_'' @ take 8 (drop 2 (random36 amb)) @ now36 amb"

text \<open>\<^verbatim>\<open>JSON.parse(bodyText || "{}")\<close>.\<close>

definition parse_body :: "platform \<Rightarrow> jsstring \<Rightarrow> jsvalue option" where
  [js_defs]: "parse_body P bodyText = JSON_parse P (if bodyText \<noteq> [] then bodyText else lit ''{}'')"

text \<open>\<^verbatim>\<open>String(body?.k || "").trim()\<close>.\<close>

definition field :: "platform \<Rightarrow> jsvalue \<Rightarrow> string \<Rightarrow> error + jsstring" where
  [js_defs]: "field P b k =
     (case Get b (lit k) of
        None \<Rightarrow> Inr (trim [])
      | Some v \<Rightarrow>
          if truthy v
          then (case ToString P v of Inl e \<Rightarrow> Inl e | Inr s \<Rightarrow> Inr (trim s))
          else Inr (trim []))"

text \<open>\<^verbatim>\<open>fs.writeFileSync(DATA_PATH, data, "utf8")\<close>.\<close>

definition writeFileSync :: "filesystem \<Rightarrow> jsstring \<Rightarrow> error + filesystem" where
  [js_defs]: "writeFileSync f data = (if writable f then Inr (f\<lparr>content := Some data\<rparr>) else Inl IOError)"

text \<open>
  The branch \<^verbatim>\<open>/api/login\<close>, \<^verbatim>\<open>POST\<close> (lines 107 to 129). Where the token is signed,
  \<^verbatim>\<open>username\<close> is the string \<^verbatim>\<open>ADMIN_USER\<close>.
\<close>

definition handler_login :: "platform \<Rightarrow> response \<Rightarrow> request \<Rightarrow> response" where
  [js_defs]: "handler_login P res req =
     (case body req of
        None \<Rightarrow> badRequest res ''Failed to read body''
      | Some bodyText \<Rightarrow>
          (case parse_body P bodyText of
             None \<Rightarrow> badRequest res ''Body must be JSON''
           | Some b \<Rightarrow>
               let b' = (if truthy b then b else JObj []);
                   username = Get b' (lit ''username'');
                   password = Get b' (lit ''password'')
               in if username \<noteq> Some (JStr (ADMIN_USER P)) \<or> password \<noteq> Some (JStr (ADMIN_PASSWORD P))
                  then unauthorized res (Some ''Invalid credentials'')
                  else
                    let token = jwt_sign P
                          (JObj [(lit ''sub'', JStr (ADMIN_USER P)), (lit ''role'', JStr (lit ''admin''))])
                          (JWT_SECRET P) (lit ''7d'')
                    in json res 200 (JObj [(lit ''ok'', JBool True), (lit ''token'', JStr token)])))"

text \<open>
  The branch \<^verbatim>\<open>/api/news\<close>, \<^verbatim>\<open>POST\<close> (lines 138 to 182). The three fields are converted before
  \<^verbatim>\<open>text\<close> is tested; the write to the file is inside \<^verbatim>\<open>try { } catch {}\<close>.
\<close>

definition handler_add :: "platform \<Rightarrow> ambient \<Rightarrow> response \<Rightarrow> server \<Rightarrow> request \<Rightarrow> (error + response) \<times> server" where
  [js_defs]: "handler_add P amb res s req =
     (case verifyJWT P req of
        None \<Rightarrow> (Inr (unauthorized res None), s)
      | Some v \<Rightarrow>
     (case body req of
        None \<Rightarrow> (Inr (badRequest res ''Failed to read body''), s)
      | Some bodyText \<Rightarrow>
     (case parse_body P bodyText of
        None \<Rightarrow> (Inr (badRequest res ''Body must be JSON''), s)
      | Some b \<Rightarrow>
     (case field P b ''text'' of Inl e \<Rightarrow> (Inl e, s) | Inr text \<Rightarrow>
     (case field P b ''source'' of Inl e \<Rightarrow> (Inl e, s) | Inr source \<Rightarrow>
     (case field P b ''imageUrl'' of Inl e \<Rightarrow> (Inl e, s) | Inr imageUrl \<Rightarrow>
        if text = [] then (Inr (badRequest res ''text is required''), s)
        else
          let item = \<lparr>item_id = makeId amb,
                      item_text = text,
                      item_source = source,
                      item_imageUrl = imageUrl,
                      item_createdAt = nowISO amb\<rparr>;
              cache = (case runtimeNewsCache s of Some xs \<Rightarrow> xs | None \<Rightarrow> []);
              s1 = s\<lparr>runtimeNewsCache := Some (item # cache)\<rparr>;
              fileNews = readNewsFromFile P (fs s1);
              next = JObj [(lit ''news'', JArr (item_obj item # fileNews))];
              s2 = (case writeFileSync (fs s1) (JSON_stringify P next) of
                      Inl e \<Rightarrow> s1
                    | Inr f \<Rightarrow> s1\<lparr>fs := f\<rparr>)
          in (Inr (json res 201 (JObj [(lit ''ok'', JBool True), (lit ''item'', item_obj item)])), s2)))))))"

text \<open>
  \<^verbatim>\<open>handler\<close>: the outcome (a response, or the exception that escapes the \<^verbatim>\<open>async\<close>
  function) and the state of the server afterwards.
\<close>

definition handler :: "platform \<Rightarrow> ambient \<Rightarrow> server \<Rightarrow> request \<Rightarrow> (error + response) \<times> server" where
  [js_defs]: "handler P amb s req =
     (let res = cors fresh_response in
      if http_method req = lit ''OPTIONS'' then (Inr (res\<lparr>statusCode := 204\<rparr>), s)
      else
        (case URL_pathname P (url req) of
           None \<Rightarrow> (Inl TypeError, s)
         | Some pathname \<Rightarrow>
             if pathname = lit ''/api/health'' \<and> http_method req = lit ''GET''
             then (Inr (json res 200 (JObj [(lit ''ok'', JBool True), (lit ''status'', JStr (lit ''up''))])), s)
             else if pathname = lit ''/api/login'' \<and> http_method req = lit ''POST''
             then (Inr (handler_login P res req), s)
             else if pathname = lit ''/api/news'' \<and> http_method req = lit ''GET''
             then (case getAllNews P s of
                     Inl e \<Rightarrow> (Inl e, s)
                   | Inr news \<Rightarrow>
                       (Inr (json res 200 (JObj [(lit ''ok'', JBool True), (lit ''news'', JArr news)])), s))
             else if pathname = lit ''/api/news'' \<and> http_method req = lit ''POST''
             then handler_add P amb res s req
             else (Inr (notFound res), s)))"

section \<open>Notions used to state the properties\<close>

text \<open>An entry carries the id \<open>X\<close> when its \<^verbatim>\<open>id\<close> is the same set key as \<open>X\<close>.\<close>

definition has_id :: "jsvalue \<Rightarrow> jsvalue \<Rightarrow> bool" where
  [js_defs]: "has_id X n = (case Get n (lit ''id'') of Some i \<Rightarrow> SameValueZero i X | None \<Rightarrow> False)"

text \<open>The \<^verbatim>\<open>createdAt\<close> of an entry can be handed to \<^verbatim>\<open>new Date\<close> without an exception.\<close>

definition convertible :: "platform \<Rightarrow> jsvalue \<Rightarrow> bool" where
  [js_defs]: "convertible P n \<longleftrightarrow> \<not> isl (Date_getTime P (Get n (lit ''createdAt'')))"

text \<open>The time of an entry, when its \<^verbatim>\<open>createdAt\<close> denotes one.\<close>

definition timeOf :: "platform \<Rightarrow> jsvalue \<Rightarrow> int option" where
  [js_defs]: "timeOf P n =
     (case Date_getTime P (Get n (lit ''createdAt'')) of Inr (Some t) \<Rightarrow> Some t | _ \<Rightarrow> None)"

text \<open>Most recent first: wherever \<open>a\<close> stands before \<open>b\<close>, both have a time and \<open>b\<close> is not later.\<close>

definition newest_first :: "platform \<Rightarrow> jsvalue list \<Rightarrow> bool" where
  [js_defs]: "newest_first P xs =
     sorted_wrt (\<lambda>a b. case (timeOf P a, timeOf P b) of
                          (Some x, Some y) \<Rightarrow> y \<le> x
                        | _ \<Rightarrow> False) xs"

text \<open>The item that the handler builds from the three converted fields.\<close>

definition new_item :: "ambient \<Rightarrow> jsstring \<Rightarrow> jsstring \<Rightarrow> jsstring \<Rightarrow> news_item" where
  [js_defs]: "new_item amb t so im =
     \<lparr>item_id = makeId amb, item_text = t, item_source = so, item_imageUrl = im,
      item_createdAt = nowISO amb\<rparr>"

text \<open>The response \<^verbatim>\<open>201\<close> that carries an item.\<close>

definition created :: "news_item \<Rightarrow> response" where
  [js_defs]: "created it =
     json (cors fresh_response) 201 (JObj [(lit ''ok'', JBool True), (lit ''item'', item_obj it)])"

text \<open>An entry with the given \<^verbatim>\<open>text\<close>, \<^verbatim>\<open>source\<close> and \<^verbatim>\<open>imageUrl\<close>.\<close>

definition has_fields :: "jsstring \<Rightarrow> jsstring \<Rightarrow> jsstring \<Rightarrow> jsvalue \<Rightarrow> bool" where
  [js_defs]: "has_fields t so im n \<longleftrightarrow>
     Get n (lit ''text'') = Some (JStr t) \<and> Get n (lit ''source'') = Some (JStr so)
     \<and> Get n (lit ''imageUrl'') = Some (JStr im)"

text \<open>
  The durable store cannot be used: the file cannot be read, or its text is not JSON, or
  the document has no array \<^verbatim>\<open>news\<close>.
\<close>

definition store_unusable :: "platform \<Rightarrow> filesystem \<Rightarrow> bool" where
  [js_defs]: "store_unusable P f =
     (case content f of
        None \<Rightarrow> True
      | Some raw \<Rightarrow>
          (case JSON_parse P raw of
             None \<Rightarrow> True
           | Some d \<Rightarrow> (case Get d (lit ''news'') of Some (JArr xs) \<Rightarrow> False | _ \<Rightarrow> True)))"

text \<open>
  The normalisation of a field in the words of the specification: an absent field is the
  empty string, any other value is brought to its string form, and the string is trimmed.
\<close>

definition spec_field :: "platform \<Rightarrow> jsvalue \<Rightarrow> string \<Rightarrow> error + jsstring" where
  [js_defs]: "spec_field P b k =
     (case Get b (lit k) of
        None \<Rightarrow> Inr []
      | Some v \<Rightarrow> (case ToString P v of Inl e \<Rightarrow> Inl e | Inr s \<Rightarrow> Inr (trim s)))"

text \<open>
  The routes of the handler, as pairs of method and path name; \<^verbatim>\<open>POST /api/upload\<close> is the
  route that the second copy of the module adds.
\<close>

definition route_table :: "(jsstring \<times> jsstring) list" where
  [js_defs]: "route_table =
     [(lit ''GET'', lit ''/api/health''),
      (lit ''POST'', lit ''/api/login''),
      (lit ''GET'', lit ''/api/news''),
      (lit ''POST'', lit ''/api/news''),
      (lit ''POST'', lit ''/api/upload'')]"

text \<open>The code units of the decimal digits.\<close>

definition isDigit :: "16 word \<Rightarrow> bool" where
  "isDigit c \<longleftrightarrow> c \<in> {48, 49, 50, 51, 52, 53, 54, 55, 56, 57}"

section \<open>A platform and states for the examples\<close>

text \<open>
  \<open>example_platform\<close> parses the texts of the examples, and the dates and path names in
  them, as Node does. No environment variable is set, and the token \<^verbatim>\<open>good\<close> is the one
  that verifies under the default secret. The file system of the examples is read-only, as
  on the deployment target that the comments of the source name, so no serialised
  document is ever stored and \<open>JSON_stringify\<close> is left trivial, like the printing of
  numbers that are not small integers.
\<close>

definition iso2020 :: jsstring where
  [ex_defs]: "iso2020 = lit ''2020-01-01T00:00:00.000Z''"

definition iso2021 :: jsstring where
  [ex_defs]: "iso2021 = lit ''2021-01-01T00:00:00.000Z''"

definition iso2022 :: jsstring where
  [ex_defs]: "iso2022 = lit ''2022-01-01T00:00:00.000Z''"

definition body_hello :: jsstring where
  [ex_text]: \<open>body_hello = lit ''{"text":"hello"}''\<close>

definition body_blank :: jsstring where
  [ex_text]: \<open>body_blank = lit ''{"text":"  "}''\<close>

definition body_bad_source :: jsstring where
  [ex_text]: \<open>body_bad_source = lit ''{"text":"","source":{"toString":1}}''\<close>

definition body_zero_source :: jsstring where
  [ex_text]: \<open>body_zero_source = lit ''{"text":"x","source":0}''\<close>

definition body_number :: jsstring where
  [ex_text]: \<open>body_number = lit ''{"text":5,"source":" wire ","imageUrl":null}''\<close>

definition file_shadow :: jsstring where
  [ex_text]: \<open>file_shadow = lit ''{"news":[{"id":"n_1","text":"old","createdAt":"2020-01-01T00:00:00.000Z"},{"id":"z","createdAt":{"toString":1}}]}''\<close>

definition file_gap :: jsstring where
  [ex_text]: \<open>file_gap = lit ''{"news":[{"id":"a","createdAt":"2020-01-01T00:00:00.000Z"},{"id":"b"},{"id":"c","createdAt":"2021-01-01T00:00:00.000Z"}]}''\<close>

definition file_ok :: jsstring where
  [ex_text]: \<open>file_ok = lit ''{"news":[{"id":"n_1","text":"old","createdAt":"2020-01-01T00:00:00.000Z"},{"id":"a","createdAt":"2020-01-01T00:00:00.000Z"},{"id":"n_0","text":"first","createdAt":"2022-01-01T00:00:00.000Z"},{"text":"no id"}]}''\<close>

definition file_broken :: jsstring where
  [ex_text]: \<open>file_broken = lit ''{"news":[''\<close>

definition old_n1 :: jsvalue where
  [ex_defs]: "old_n1 = JObj [(lit ''id'', JStr (lit ''n_1'')), (lit ''text'', JStr (lit ''old'')),
                  (lit ''createdAt'', JStr iso2020)]"

definition entry_z :: jsvalue where
  [ex_defs]: "entry_z = JObj [(lit ''id'', JStr (lit ''z'')),
                   (lit ''createdAt'', JObj [(lit ''toString'', JNum 1)])]"

definition entry_a :: jsvalue where
  [ex_defs]: "entry_a = JObj [(lit ''id'', JStr (lit ''a'')), (lit ''createdAt'', JStr iso2020)]"

definition entry_b :: jsvalue where
  [ex_defs]: "entry_b = JObj [(lit ''id'', JStr (lit ''b''))]"

definition entry_c :: jsvalue where
  [ex_defs]: "entry_c = JObj [(lit ''id'', JStr (lit ''c'')), (lit ''createdAt'', JStr iso2021)]"

definition entry_n0 :: jsvalue where
  [ex_defs]: "entry_n0 = JObj [(lit ''id'', JStr (lit ''n_0'')), (lit ''text'', JStr (lit ''first'')),
                    (lit ''createdAt'', JStr iso2022)]"

definition example_admin :: jsvalue where
  [ex_defs]: "example_admin = JObj [(lit ''sub'', JStr (lit ''admin'')), (lit ''role'', JStr (lit ''admin''))]"

definition example_platform :: platform where
  "example_platform =
     \<lparr>process_env = (\<lambda>v. None),
      JSON_parse = map_of
        [(lit ''{}'', JObj []),
         (body_hello, JObj [(lit ''text'', JStr (lit ''hello''))]),
         (body_blank, JObj [(lit ''text'', JStr (lit ''  ''))]),
         (body_bad_source,
            JObj [(lit ''text'', JStr []), (lit ''source'', JObj [(lit ''toString'', JNum 1)])]),
         (body_zero_source, JObj [(lit ''text'', JStr (lit ''x'')), (lit ''source'', JNum 0)]),
         (body_number,
            JObj [(lit ''text'', JNum 5), (lit ''source'', JStr (lit '' wire '')),
                  (lit ''imageUrl'', JNull)]),
         (file_shadow, JObj [(lit ''news'', JArr [old_n1, entry_z])]),
         (file_gap, JObj [(lit ''news'', JArr [entry_a, entry_b, entry_c])]),
         (file_ok,
            JObj [(lit ''news'',
                   JArr [old_n1, entry_a, entry_n0, JObj [(lit ''text'', JStr (lit ''no id''))]])])],
      JSON_stringify = (\<lambda>v. []),
      jwt_verify = (\<lambda>token secret.
         if token = lit ''good'' \<and> secret = lit ''dev_secret_change_me''
         then Some example_admin else None),
      jwt_sign = (\<lambda>claims secret expiresIn. lit ''good''),
      Date_parse = map_of
        [(iso2020, 1577836800000), (iso2021, 1609459200000), (iso2022, 1640995200000)],
      Number_toString_other = (\<lambda>q. []),
      URL_pathname = map_of
        [(lit ''/api/health'', lit ''/api/health''),
         (lit ''/api/login'', lit ''/api/login''),
         (lit ''/api/news'', lit ''/api/news''),
         (lit ''/health'', lit ''/health''),
         (lit ''/login'', lit ''/login''),
         (lit ''/news'', lit ''/news''),
         (lit ''/bogus'', lit ''/bogus'')]\<rparr>"

definition item_n1 :: news_item where
  [ex_defs]: "item_n1 = \<lparr>item_id = lit ''n_1'', item_text = lit ''new'', item_source = [],
              item_imageUrl = [], item_createdAt = iso2021\<rparr>"

definition read_only :: "jsstring option \<Rightarrow> filesystem" where
  [ex_defs]: "read_only c = \<lparr>content = c, writable = False\<rparr>"

definition state_shadow :: server where
  [ex_defs]: "state_shadow = \<lparr>runtimeNewsCache = Some [item_n1], fs = read_only (Some file_shadow)\<rparr>"

definition state_gap :: server where
  [ex_defs]: "state_gap = \<lparr>runtimeNewsCache = None, fs = read_only (Some file_gap)\<rparr>"

definition state_ok :: server where
  [ex_defs]: "state_ok = \<lparr>runtimeNewsCache = Some [item_n1], fs = read_only (Some file_ok)\<rparr>"

definition state_broken :: server where
  [ex_defs]: "state_broken = \<lparr>runtimeNewsCache = Some [item_n1], fs = read_only (Some file_broken)\<rparr>"

definition item_hello :: news_item where
  [ex_defs]: "item_hello = \<lparr>item_id = lit ''n_old'', item_text = lit ''hello'', item_source = [],
                item_imageUrl = [], item_createdAt = iso2020\<rparr>"

definition example_ambient :: ambient where
  [ex_defs]: "example_ambient = \<lparr>random36 = lit ''0.4fzyo82mvyr'', now36 = lit ''kc3v8w2o'', nowISO = iso2021\<rparr>"

definition item_clash :: news_item where
  [ex_defs]: "item_clash = \<lparr>item_id = lit ''n_4fzyo82mkc3v8w2o'', item_text = lit ''earlier'', item_source = [],
                item_imageUrl = [], item_createdAt = iso2020\<rparr>"

definition state_empty :: server where
  [ex_defs]: "state_empty = \<lparr>runtimeNewsCache = None, fs = read_only None\<rparr>"

definition state_hello :: server where
  [ex_defs]: "state_hello = \<lparr>runtimeNewsCache = Some [item_hello], fs = read_only None\<rparr>"

definition state_clash :: server where
  [ex_defs]: "state_clash = \<lparr>runtimeNewsCache = Some [item_clash], fs = read_only None\<rparr>"

text \<open>Requests of the examples: with the token \<^verbatim>\<open>good\<close>, and without a header.\<close>

definition request_with_token :: "string \<Rightarrow> string \<Rightarrow> jsstring \<Rightarrow> request" where
  [ex_defs]: "request_with_token m u bodyText =
     \<lparr>http_method = lit m, url = lit u, authorization = Some (lit ''Bearer good''),
      body = Some bodyText\<rparr>"

definition request_without_token :: "string \<Rightarrow> string \<Rightarrow> jsstring \<Rightarrow> request" where
  [ex_defs]: "request_without_token m u bodyText =
     \<lparr>http_method = lit m, url = lit u, authorization = None, body = Some bodyText\<rparr>"

definition request_with_header :: "string \<Rightarrow> string \<Rightarrow> string \<Rightarrow> jsstring \<Rightarrow> request" where
  [ex_defs]: "request_with_header m u h bodyText =
     \<lparr>http_method = lit m, url = lit u, authorization = Some (lit h), body = Some bodyText\<rparr>"

section \<open>Evaluating the examples\<close>

text \<open>
  What the example platform answers on the texts of the examples, and the definitions that
  the simplifier unfolds to run the model on them.
\<close>

lemma parse_empty_object [ex_defs]: "JSON_parse example_platform (lit ''{}'') = Some (JObj [])"
  by (simp add: example_platform_def)

lemma parse_file_ok [ex_defs]:
  "JSON_parse example_platform file_ok
     = Some (JObj [(lit ''news'',
                    JArr [old_n1, entry_a, entry_n0, JObj [(lit ''text'', JStr (lit ''no id''))]])])"
  by (simp add: example_platform_def ex_text)

lemma parse_file_shadow [ex_defs]:
  "JSON_parse example_platform file_shadow = Some (JObj [(lit ''news'', JArr [old_n1, entry_z])])"
  by (simp add: example_platform_def ex_text)

lemma parse_file_gap [ex_defs]:
  "JSON_parse example_platform file_gap
     = Some (JObj [(lit ''news'', JArr [entry_a, entry_b, entry_c])])"
  by (simp add: example_platform_def ex_text)

lemma parse_file_broken [ex_defs]: "JSON_parse example_platform file_broken = None"
  by (simp add: example_platform_def ex_text)

lemma parse_body_hello [ex_defs]:
  "JSON_parse example_platform body_hello = Some (JObj [(lit ''text'', JStr (lit ''hello''))])"
  by (simp add: example_platform_def ex_text)

lemma parse_body_blank [ex_defs]:
  "JSON_parse example_platform body_blank = Some (JObj [(lit ''text'', JStr (lit ''  ''))])"
  by (simp add: example_platform_def ex_text)

lemma parse_body_bad_source [ex_defs]:
  "JSON_parse example_platform body_bad_source
     = Some (JObj [(lit ''text'', JStr []), (lit ''source'', JObj [(lit ''toString'', JNum 1)])])"
  by (simp add: example_platform_def ex_text)

lemma parse_body_zero_source [ex_defs]:
  "JSON_parse example_platform body_zero_source
     = Some (JObj [(lit ''text'', JStr (lit ''x'')), (lit ''source'', JNum 0)])"
  by (simp add: example_platform_def ex_text)

lemma parse_body_number [ex_defs]:
  "JSON_parse example_platform body_number
     = Some (JObj [(lit ''text'', JNum 5), (lit ''source'', JStr (lit '' wire '')),
                   (lit ''imageUrl'', JNull)])"
  by (simp add: example_platform_def ex_text)

lemma body_texts_not_empty [ex_defs]:
  "body_hello \<noteq> []" "body_blank \<noteq> []" "body_bad_source \<noteq> []" "body_zero_source \<noteq> []"
  "body_number \<noteq> []"
  by (simp_all add: ex_text)

lemma example_process_env [ex_defs]: "process_env example_platform = (\<lambda>v. None)"
  by (simp add: example_platform_def)

lemma example_jwt_verify [ex_defs]:
  "jwt_verify example_platform
     = (\<lambda>token secret. if token = lit ''good'' \<and> secret = lit ''dev_secret_change_me''
                        then Some example_admin else None)"
  by (simp add: example_platform_def)

lemma example_jwt_sign [ex_defs]:
  "jwt_sign example_platform = (\<lambda>claims secret expiresIn. lit ''good'')"
  by (simp add: example_platform_def)

lemma example_URL_pathname [ex_defs]:
  "URL_pathname example_platform
     = map_of [(lit ''/api/health'', lit ''/api/health''),
               (lit ''/api/login'', lit ''/api/login''),
               (lit ''/api/news'', lit ''/api/news''),
               (lit ''/health'', lit ''/health''),
               (lit ''/login'', lit ''/login''),
               (lit ''/news'', lit ''/news''),
               (lit ''/bogus'', lit ''/bogus'')]"
  by (simp add: example_platform_def)

lemma example_JSON_stringify [ex_defs]: "JSON_stringify example_platform = (\<lambda>v. [])"
  by (simp add: example_platform_def)

lemma example_Date_parse [ex_defs]:
  "Date_parse example_platform
     = map_of [(iso2020, 1577836800000), (iso2021, 1609459200000), (iso2022, 1640995200000)]"
  by (simp add: example_platform_def)

section \<open>The merge and the sort\<close>

lemma merge_loop_acc: "merge_loop ns seen merged = merged @ merge_loop ns seen []"
proof (induction ns arbitrary: seen merged)
  case Nil
  show ?case by simp
next
  case (Cons n ns)
  show ?case
  proof (cases "Get n (lit ''id'')")
    case None
    then show ?thesis using Cons.IH[of seen merged] by simp
  next
    case (Some i)
    show ?thesis
    proof (cases "\<not> truthy i \<or> Set_has seen i")
      case True
      then show ?thesis using Some Cons.IH[of seen merged] by simp
    next
      case False
      then show ?thesis
        using Some Cons.IH[of "seen @ [i]" "merged @ [n]"] Cons.IH[of "seen @ [i]" "[n]"] by simp
    qed
  qed
qed

lemma SameValueZero_sym: "SameValueZero a b \<Longrightarrow> SameValueZero b a"
  by (cases a; cases b) auto

lemma SameValueZero_trans: "SameValueZero a b \<Longrightarrow> SameValueZero b c \<Longrightarrow> SameValueZero a c"
  by (cases a; cases b; cases c) auto

lemma Set_has_snoc: "Set_has (seen @ [i]) X \<longleftrightarrow> Set_has seen X \<or> SameValueZero i X"
  by (auto simp: Set_has_def list_ex_iff)

lemma Set_has_same: "Set_has seen X \<Longrightarrow> SameValueZero i X \<Longrightarrow> Set_has seen i"
  unfolding Set_has_def list_ex_iff
  by (meson SameValueZero_sym SameValueZero_trans)

lemma merge_loop_kept:
  "n \<in> set (merge_loop ns seen []) \<Longrightarrow>
     n \<in> set ns \<and> (\<exists>i. Get n (lit ''id'') = Some i \<and> truthy i \<and> \<not> Set_has seen i)"
proof (induction ns arbitrary: seen)
  case Nil
  then show ?case by simp
next
  case (Cons m ns)
  show ?case
  proof (cases "Get m (lit ''id'')")
    case None
    then show ?thesis using Cons by auto
  next
    case (Some i)
    show ?thesis
    proof (cases "\<not> truthy i \<or> Set_has seen i")
      case True
      then show ?thesis using Some Cons by auto
    next
      case False
      then have eq: "merge_loop (m # ns) seen [] = m # merge_loop ns (seen @ [i]) []"
        using Some merge_loop_acc[of ns "seen @ [i]" "[m]"] by simp
      show ?thesis
      proof (cases "n = m")
        case True
        then show ?thesis using Some False by auto
      next
        case neq: False
        then have "n \<in> set (merge_loop ns (seen @ [i]) [])" using Cons.prems eq by simp
        from Cons.IH[OF this] show ?thesis by (auto simp: Set_has_snoc)
      qed
    qed
  qed
qed

lemma merge_loop_seen_none:
  assumes "Set_has seen X"
  shows "filter (has_id X) (merge_loop ns seen []) = []"
proof -
  have "\<not> has_id X n" if "n \<in> set (merge_loop ns seen [])" for n
  proof
    assume h: "has_id X n"
    from merge_loop_kept[OF that] obtain i where i: "Get n (lit ''id'') = Some i" "\<not> Set_has seen i"
      by blast
    from h i(1) have "SameValueZero i X" by (simp add: has_id_def)
    with assms have "Set_has seen i" by (rule Set_has_same)
    with i(2) show False by simp
  qed
  then show ?thesis by (simp add: filter_empty_conv)
qed

lemma merge_loop_first:
  assumes "\<not> Set_has seen X" "\<forall>p\<in>set pre. \<not> has_id X p"
    and "Get c (lit ''id'') = Some X" "truthy X" "SameValueZero X X"
  shows "filter (has_id X) (merge_loop (pre @ c # post) seen []) = [c]"
  using assms(1,2)
proof (induction pre arbitrary: seen)
  case Nil
  have eq: "merge_loop (c # post) seen [] = c # merge_loop post (seen @ [X]) []"
    using assms(3,4) Nil(1) merge_loop_acc[of post "seen @ [X]" "[c]"] by simp
  have "Set_has (seen @ [X]) X" using assms(5) by (simp add: Set_has_snoc)
  then have "filter (has_id X) (merge_loop post (seen @ [X]) []) = []"
    by (rule merge_loop_seen_none)
  moreover have "has_id X c" using assms(3,5) by (simp add: has_id_def)
  ultimately show ?case using eq by simp
next
  case (Cons p pre)
  have np: "\<not> has_id X p" using Cons.prems(2) by simp
  have rest: "\<forall>q\<in>set pre. \<not> has_id X q" using Cons.prems(2) by simp
  show ?case
  proof (cases "Get p (lit ''id'')")
    case None
    then show ?thesis using Cons.IH[OF Cons.prems(1) rest] by simp
  next
    case (Some i)
    show ?thesis
    proof (cases "\<not> truthy i \<or> Set_has seen i")
      case True
      then show ?thesis using Some Cons.IH[OF Cons.prems(1) rest] by simp
    next
      case False
      have eq: "merge_loop ((p # pre) @ c # post) seen [] = p # merge_loop (pre @ c # post) (seen @ [i]) []"
        using Some False merge_loop_acc[of "pre @ c # post" "seen @ [i]" "[p]"] by simp
      have "\<not> SameValueZero i X" using np Some by (simp add: has_id_def)
      then have "\<not> Set_has (seen @ [i]) X" using Cons.prems(1) by (simp add: Set_has_snoc)
      from Cons.IH[OF this rest] show ?thesis using eq np by simp
    qed
  qed
qed


lemma sort_insert_mset: "sort_insert cmp x ys = Inr zs \<Longrightarrow> mset zs = add_mset x (mset ys)"
proof (induction ys arbitrary: zs)
  case Nil
  then show ?case by auto
next
  case (Cons y ys)
  then show ?case
    by (auto split: sum.splits if_splits)
qed

lemma Array_sort_mset: "Array_sort cmp xs = Inr ys \<Longrightarrow> mset ys = mset xs"
proof (induction xs arbitrary: ys)
  case Nil
  then show ?case by simp
next
  case (Cons x xs)
  then show ?case
    by (auto split: sum.splits dest: sort_insert_mset)
qed

lemma sort_insert_total:
  "\<forall>y\<in>set ys. \<not> isl (cmp x y) \<Longrightarrow> \<exists>zs. sort_insert cmp x ys = Inr zs"
proof (induction ys)
  case Nil
  show ?case by simp
next
  case (Cons y ys)
  then obtain v where "cmp x y = Inr v" by (cases "cmp x y") auto
  then obtain w where w: "SortCompare cmp x y = Inr w"
    by (cases v) (auto simp: SortCompare_def)
  from Cons obtain zs where "sort_insert cmp x ys = Inr zs" by auto
  with w show ?case by simp
qed

lemma Array_sort_total:
  "\<forall>a\<in>set xs. \<forall>b\<in>set xs. \<not> isl (cmp a b) \<Longrightarrow> \<exists>ys. Array_sort cmp xs = Inr ys"
proof (induction xs)
  case Nil
  show ?case by simp
next
  case (Cons x xs)
  then obtain ys where ys: "Array_sort cmp xs = Inr ys" by auto
  then have "set ys = set xs" using Array_sort_mset mset_eq_setD by blast
  then have "\<forall>y\<in>set ys. \<not> isl (cmp x y)" using Cons.prems by simp
  then have "\<exists>zs. sort_insert cmp x ys = Inr zs" by (rule sort_insert_total)
  with ys show ?case by simp
qed

lemma byCreatedAt_convertible:
  "convertible P a \<Longrightarrow> convertible P b \<Longrightarrow> \<not> isl (byCreatedAt P a b)"
  by (auto simp: convertible_def byCreatedAt_def split: sum.splits)

lemma filter_single_mset:
  assumes "mset ys = mset xs" "filter Q xs = [c]"
  shows "filter Q ys = [c]"
proof -
  have "mset (filter Q ys) = mset (filter Q xs)" using assms(1) by simp
  then have "mset (filter Q ys) = {#c#}" using assms(2) by simp
  then show ?thesis by (metis mset_single_iff_right)
qed

lemma Get_item_obj_id: "Get (item_obj c) (lit ''id'') = Some (JStr (item_id c))"
  by (simp add: item_obj_def)

lemma Get_item_obj_createdAt:
  "Get (item_obj c) (lit ''createdAt'') = Some (JStr (item_createdAt c))"
  by (simp add: item_obj_def lit_def)

lemma has_id_item_obj: "has_id (JStr x) (item_obj c) \<longleftrightarrow> item_id c = x"
  by (simp add: has_id_def Get_item_obj_id)

lemma convertible_item_obj: "convertible P (item_obj c)"
  by (simp add: convertible_def Get_item_obj_createdAt Date_getTime_def)

lemma Set_has_Nil: "\<not> Set_has [] X"
  by (simp add: Set_has_def)

lemma merged_first_cache_copy:
  assumes "runtimeNewsCache s = Some (pre @ c # post)"
    and "\<forall>p\<in>set pre. item_id p \<noteq> item_id c"
    and "item_id c \<noteq> []"
  shows "filter (has_id (JStr (item_id c))) (merged_news P s) = [item_obj c]"
proof -
  let ?X = "JStr (item_id c)"
  let ?file = "readNewsFromFile P (fs s)"
  have m: "merged_news P s
             = merge_loop (map item_obj pre @ item_obj c # (map item_obj post @ ?file)) [] []"
    using assms(1) by (simp add: merged_news_def)
  have "\<forall>p\<in>set (map item_obj pre). \<not> has_id ?X p"
    using assms(2) by (auto simp: has_id_item_obj)
  then show ?thesis
    unfolding m using assms(3)
    by (intro merge_loop_first) (simp_all add: Set_has_Nil Get_item_obj_id)
qed

lemma merged_news_subset:
  "n \<in> set (merged_news P s) \<Longrightarrow>
     (n \<in> item_obj ` set (case runtimeNewsCache s of Some xs \<Rightarrow> xs | None \<Rightarrow> [])
        \<or> n \<in> set (readNewsFromFile P (fs s)))
     \<and> (\<exists>i. Get n (lit ''id'') = Some i \<and> truthy i)"
  unfolding merged_news_def Let_def
  by (auto dest!: merge_loop_kept split: option.splits)

lemma getAllNews_returns:
  assumes "\<forall>n\<in>set (merged_news P s). convertible P n"
  shows "\<exists>xs. getAllNews P s = Inr xs \<and> mset xs = mset (merged_news P s)"
proof -
  have "\<forall>a\<in>set (merged_news P s). \<forall>b\<in>set (merged_news P s). \<not> isl (byCreatedAt P a b)"
    using assms by (simp add: byCreatedAt_convertible)
  then have "\<exists>xs. Array_sort (byCreatedAt P) (merged_news P s) = Inr xs"
    by (rule Array_sort_total)
  then show ?thesis
    unfolding getAllNews_def using Array_sort_mset by blast
qed

section \<open>The sort, when every entry has a time\<close>

lemma timeOf_Some:
  "timeOf P n = Some t \<longleftrightarrow> Date_getTime P (Get n (lit ''createdAt'')) = Inr (Some t)"
  by (auto simp: timeOf_def split: sum.splits option.splits)

lemma SortCompare_times:
  assumes "timeOf P x = Some tx" "timeOf P y = Some ty"
  shows "SortCompare (byCreatedAt P) x y = Inr (ty - tx)"
  using assms by (simp add: timeOf_Some SortCompare_def byCreatedAt_def)

lemma sort_insert_insort_key:
  assumes "timeOf P x \<noteq> None" "\<forall>y\<in>set ys. timeOf P y \<noteq> None"
  shows "sort_insert (byCreatedAt P) x ys = Inr (insort_key (\<lambda>n. - the (timeOf P n)) x ys)"
  using assms(2)
proof (induction ys)
  case Nil
  show ?case by simp
next
  case (Cons y ys)
  from assms(1) obtain tx where tx: "timeOf P x = Some tx" by auto
  from Cons.prems obtain ty where ty: "timeOf P y = Some ty" by auto
  have ih: "sort_insert (byCreatedAt P) x ys = Inr (insort_key (\<lambda>n. - the (timeOf P n)) x ys)"
    using Cons by simp
  show ?case
    using SortCompare_times[OF tx ty] ih tx ty by simp
qed

lemma Array_sort_sort_key:
  assumes "\<forall>n\<in>set xs. timeOf P n \<noteq> None"
  shows "Array_sort (byCreatedAt P) xs = Inr (sort_key (\<lambda>n. - the (timeOf P n)) xs)"
  using assms
proof (induction xs)
  case Nil
  show ?case by simp
next
  case (Cons x xs)
  let ?f = "\<lambda>n. - the (timeOf P n)"
  have ih: "Array_sort (byCreatedAt P) xs = Inr (sort_key ?f xs)" using Cons by simp
  have "\<forall>y\<in>set (sort_key ?f xs). timeOf P y \<noteq> None" using Cons.prems by simp
  then have "sort_insert (byCreatedAt P) x (sort_key ?f xs) = Inr (insort_key ?f x (sort_key ?f xs))"
    using Cons.prems by (intro sort_insert_insort_key) simp_all
  then show ?case using ih by (simp add: sort_key_def)
qed

lemma newest_first_sort_key:
  assumes "\<forall>n\<in>set xs. timeOf P n \<noteq> None"
  shows "newest_first P (sort_key (\<lambda>n. - the (timeOf P n)) xs)"
proof -
  let ?f = "\<lambda>n. - the (timeOf P n)"
  let ?ys = "sort_key ?f xs"
  have "sorted (map ?f ?ys)" by (rule sorted_sort_key)
  then have sw: "sorted_wrt (\<lambda>a b. ?f a \<le> ?f b) ?ys" by (simp add: sorted_map)
  have v: "\<forall>n\<in>set ?ys. timeOf P n \<noteq> None" using assms by simp
  show ?thesis
    unfolding newest_first_def
  proof (rule sorted_wrt_mono_rel[OF _ sw])
    fix a b assume ab: "a \<in> set ?ys" "b \<in> set ?ys" "?f a \<le> ?f b"
    from ab(1) v obtain ta where "timeOf P a = Some ta" by blast
    moreover from ab(2) v obtain tb where "timeOf P b = Some tb" by blast
    ultimately show "case (timeOf P a, timeOf P b) of (Some x, Some y) \<Rightarrow> y \<le> x | _ \<Rightarrow> False"
      using ab(3) by simp
  qed
qed

lemma sort_key_three:
  assumes "mset xs = {#a, b, c#}" "f c < f b" "f b < (f a :: int)"
  shows "sort_key f xs = [c, b, a]"
proof (rule properties_for_sort_key)
  show "mset [c, b, a] = mset xs" using assms(1) by (simp add: add_mset_commute)
  show "sorted (map f [c, b, a])" using assms(2,3) by simp
  fix k assume k: "k \<in> set [c, b, a]"
  have "mset (filter (\<lambda>x. f k = f x) xs) = filter_mset (\<lambda>x. f k = f x) {#a, b, c#}"
    using assms(1) by (metis mset_filter)
  also have "\<dots> = {#k#}" using k assms(2,3) by auto
  finally have "filter (\<lambda>x. f k = f x) xs = [k]" by (metis mset_single_iff_right)
  moreover have "filter (\<lambda>x. f k = f x) [c, b, a] = [k]" using k assms(2,3) by auto
  ultimately show "filter (\<lambda>x. f k = f x) [c, b, a] = filter (\<lambda>x. f k = f x) xs" by simp
qed

section \<open>What the merge keeps, and when the listing returns\<close>



lemma byCreatedAt_throws:
  "\<not> convertible P a \<or> \<not> convertible P b \<Longrightarrow> isl (SortCompare (byCreatedAt P) a b)"
  by (auto simp: convertible_def byCreatedAt_def SortCompare_def split: sum.splits option.splits)

lemma Array_sort_throws:
  assumes "2 \<le> length xs" "\<exists>n\<in>set xs. \<not> convertible P n"
  shows "isl (Array_sort (byCreatedAt P) xs)"
  using assms
proof (induction xs)
  case Nil
  then show ?case by simp
next
  case (Cons x xs)
  show ?case
  proof (cases "Array_sort (byCreatedAt P) xs")
    case (Inl e)
    then show ?thesis by simp
  next
    case (Inr ys)
    then have ms: "mset ys = mset xs" by (rule Array_sort_mset)
    then have st: "set ys = set xs" by (rule mset_eq_setD)
    have len: "length ys = length xs" using ms by (rule mset_eq_length)
    have small: "\<not> (2 \<le> length xs \<and> (\<exists>n\<in>set xs. \<not> convertible P n))"
      using Cons.IH Inr by auto
    from Cons.prems(1) len obtain y ys' where ys: "ys = y # ys'" by (cases ys) auto
    have "\<not> convertible P x \<or> \<not> convertible P y"
    proof (cases "convertible P x")
      case False
      then show ?thesis by simp
    next
      case True
      with Cons.prems(2) have bad: "\<exists>n\<in>set xs. \<not> convertible P n" by auto
      with small have "length xs < 2" by auto
      with len have "length ys < 2" by simp
      with ys have "ys' = []" by (cases ys') simp_all
      with ys st bad show ?thesis by auto
    qed
    then have "isl (SortCompare (byCreatedAt P) x y)" by (rule byCreatedAt_throws)
    then show ?thesis using Inr ys by (auto split: sum.splits)
  qed
qed

lemma Array_sort_short: "length xs \<le> 1 \<Longrightarrow> Array_sort cmp xs = Inr xs"
  by (cases xs) (auto split: sum.splits)

lemma getAllNews_returns_iff:
  "(\<exists>xs. getAllNews P s = Inr xs)
     \<longleftrightarrow> length (merged_news P s) \<le> 1 \<or> (\<forall>n\<in>set (merged_news P s). convertible P n)"
proof
  assume r: "\<exists>xs. getAllNews P s = Inr xs"
  show "length (merged_news P s) \<le> 1 \<or> (\<forall>n\<in>set (merged_news P s). convertible P n)"
  proof (rule ccontr)
    assume "\<not> (length (merged_news P s) \<le> 1 \<or> (\<forall>n\<in>set (merged_news P s). convertible P n))"
    then have "2 \<le> length (merged_news P s)" "\<exists>n\<in>set (merged_news P s). \<not> convertible P n"
      by auto
    then have "isl (getAllNews P s)" unfolding getAllNews_def by (rule Array_sort_throws)
    with r show False by auto
  qed
next
  assume "length (merged_news P s) \<le> 1 \<or> (\<forall>n\<in>set (merged_news P s). convertible P n)"
  then show "\<exists>xs. getAllNews P s = Inr xs"
  proof
    assume "length (merged_news P s) \<le> 1"
    then show ?thesis unfolding getAllNews_def by (simp add: Array_sort_short)
  next
    assume "\<forall>n\<in>set (merged_news P s). convertible P n"
    from getAllNews_returns[OF this] show ?thesis by blast
  qed
qed

section \<open>The handler on the route that adds an item\<close>

lemma handler_news_post:
  assumes "http_method req = lit ''POST''" "URL_pathname P (url req) = Some (lit ''/api/news'')"
  shows "handler P amb s req = handler_add P amb (cors fresh_response) s req"
  using assms by (simp add: handler_def lit_def)

lemma handler_add_accepted:
  assumes "verifyJWT P req = Some v" "body req = Some bodyText" "parse_body P bodyText = Some b"
    and "field P b ''text'' = Inr t" "field P b ''source'' = Inr so"
    and "field P b ''imageUrl'' = Inr im" "t \<noteq> []"
  shows "fst (handler_add P amb (cors fresh_response) s req) = Inr (created (new_item amb t so im))"
    and "runtimeNewsCache (snd (handler_add P amb (cors fresh_response) s req))
           = Some (new_item amb t so im # (case runtimeNewsCache s of Some xs \<Rightarrow> xs | None \<Rightarrow> []))"
    and "\<not> writable (fs s) \<Longrightarrow> fs (snd (handler_add P amb (cors fresh_response) s req)) = fs s"
  using assms
  by (simp_all add: handler_add_def created_def new_item_def writeFileSync_def Let_def)

lemma makeId_not_empty: "makeId amb \<noteq> []"
  by (simp add: makeId_def lit_def)

lemma filter_eq_of_single:
  assumes "filter Q xs = [x]" "\<forall>n\<in>set xs. R n \<longrightarrow> n = x" "R x"
  shows "filter R xs = [x]"
proof -
  have "x \<in> set (filter Q xs)" using assms(1) by simp
  then have "Q x" by simp
  have "filter R xs = filter (\<lambda>n. Q n \<and> R n) xs"
    using assms(2) \<open>Q x\<close> by (intro filter_cong) auto
  also have "\<dots> = filter R (filter Q xs)" by simp
  also have "\<dots> = [x]" using assms(1,3) by simp
  finally show ?thesis .
qed

lemma listed_after_add:
  assumes cache: "runtimeNewsCache s' = Some (it # old)"
    and id: "item_id it \<noteq> []"
    and conv: "\<forall>n\<in>set (merged_news P s'). convertible P n"
  shows "\<exists>xs. getAllNews P s' = Inr xs
           \<and> mset xs = mset (merged_news P s')
           \<and> filter (has_id (JStr (item_id it))) xs = [item_obj it]"
proof -
  from getAllNews_returns[OF conv] obtain xs
    where xs: "getAllNews P s' = Inr xs" and ms: "mset xs = mset (merged_news P s')"
    by blast
  have c: "runtimeNewsCache s' = Some ([] @ it # old)" using cache by simp
  have "filter (has_id (JStr (item_id it))) (merged_news P s') = [item_obj it]"
    using c _ id by (rule merged_first_cache_copy) simp
  with ms have "filter (has_id (JStr (item_id it))) xs = [item_obj it]"
    by (rule filter_single_mset)
  with xs ms show ?thesis by blast
qed

lemma has_fields_item_obj:
  "has_fields t so im (item_obj it)
     \<longleftrightarrow> item_text it = t \<and> item_source it = so \<and> item_imageUrl it = im"
  by (simp add: has_fields_def item_obj_def lit_def)

section \<open>The conversion of the fields\<close>

lemma trim_Nil: "trim [] = []"
  by (simp add: trim_def)

lemma trim_no_space:
  assumes "s \<noteq> []" "\<not> isSpace (hd s)" "\<not> isSpace (last s)"
  shows "trim s = s"
proof -
  have "dropWhile isSpace s = s" using assms(1,2) by (cases s) simp_all
  moreover have "dropWhile isSpace (rev s) = rev s"
    using assms(1,3) by (cases "rev s") (simp_all add: last_rev[symmetric] hd_rev)
  ultimately show ?thesis by (simp add: trim_def)
qed

lemma digit_char: "d < 10 \<Longrightarrow> isDigit (of_nat (48 + d))"
proof -
  assume "d < 10"
  then have "d \<in> {0, 1, 2, 3, 4, 5, 6, 7, 8, 9}" by auto
  then show ?thesis by (auto simp: isDigit_def)
qed

lemma isDigit_not_space: "isDigit c \<Longrightarrow> \<not> isSpace c"
  by (auto simp: isDigit_def isSpace_def isWhiteSpace_def isLineTerminator_def)

lemma digits10_digits: "digits10 n \<noteq> [] \<and> (\<forall>c\<in>set (digits10 n). isDigit c)"
proof (induction n rule: digits10.induct)
  case (1 n)
  show ?case
  proof (cases "n < 10")
    case True
    then show ?thesis using digit_char[of n] by (simp add: digits10.simps[of n])
  next
    case False
    have "n mod 10 < 10" by simp
    then have "isDigit (of_nat (48 + n mod 10))" by (rule digit_char)
    then show ?thesis using False 1 by (simp add: digits10.simps[of n])
  qed
qed

lemma trim_digits10: "trim (digits10 n) = digits10 n"
proof -
  have ne: "digits10 n \<noteq> []" using digits10_digits by simp
  then have "hd (digits10 n) \<in> set (digits10 n)" "last (digits10 n) \<in> set (digits10 n)"
    by simp_all
  then have "\<not> isSpace (hd (digits10 n))" "\<not> isSpace (last (digits10 n))"
    using digits10_digits isDigit_not_space by blast+
  with ne show ?thesis by (rule trim_no_space)
qed

lemma Number_toString_positive:
  assumes "0 < n" "n \<le> 9007199254740992"
  shows "Number_toString P (of_int n) = digits10 (nat n)"
  using assms by (simp add: Number_toString_def)

lemma field_absent: "Get b (lit k) = None \<Longrightarrow> field P b k = Inr []"
  by (simp add: field_def trim_Nil)

lemma field_falsy: "Get b (lit k) = Some v \<Longrightarrow> \<not> truthy v \<Longrightarrow> field P b k = Inr []"
  by (simp add: field_def trim_Nil)

lemma field_string: "Get b (lit k) = Some (JStr x) \<Longrightarrow> field P b k = Inr (trim x)"
  by (simp add: field_def trim_Nil)

lemma field_truthy:
  "Get b (lit k) = Some v \<Longrightarrow> truthy v \<Longrightarrow> ToString P v = Inr sv \<Longrightarrow> field P b k = Inr (trim sv)"
  by (simp add: field_def)

lemma field_number:
  assumes "Get b (lit k) = Some (JNum (of_int n))" "0 < n" "n \<le> 9007199254740992"
  shows "field P b k = Inr (digits10 (nat n))"
  using assms by (simp add: field_def Number_toString_positive trim_digits10)

section \<open>Authentication and the other routes\<close>

lemma find_Some_set: "find Q xs = Some x \<Longrightarrow> x \<in> set xs \<and> Q x"
  by (induction xs) (auto split: if_splits)

lemma match_Bearer_Some:
  assumes "match_Bearer a = Some tok"
  shows "map toUpperASCII (take 6 a) = lit ''BEARER''
         \<and> tok \<noteq> [] \<and> \<not> list_ex isLineTerminator tok
         \<and> (\<exists>i\<ge>1. tok = drop (6 + i) a \<and> list_all isSpace (take i (drop 6 a)))"
proof -
  let ?r = "drop 6 a"
  let ?k = "length (takeWhile isSpace ?r)"
  have sch: "map toUpperASCII (take 6 a) = lit ''BEARER''"
    using assms by (simp add: match_Bearer_def split: if_splits)
  then have f: "find (\<lambda>c. c \<noteq> [] \<and> \<not> list_ex isLineTerminator c)
                  (map (\<lambda>i. drop i ?r) (rev [1..<Suc ?k])) = Some tok"
    using assms by (simp add: match_Bearer_def Let_def)
  from find_Some_set[OF f]
  have p: "tok \<noteq> [] \<and> \<not> list_ex isLineTerminator tok"
    and m: "tok \<in> set (map (\<lambda>i. drop i ?r) (rev [1..<Suc ?k]))"
    by simp_all
  from m obtain i where i: "1 \<le> i" "i \<le> ?k" "tok = drop i ?r" by auto
  have "take i ?r = take i (takeWhile isSpace ?r)"
    using i(2) by (metis append_eq_conv_conj takeWhile_dropWhile_id take_all take_append
        diff_is_0_eq take_0 append_Nil2)
  then have "list_all isSpace (take i ?r)"
    by (metis in_set_takeD list_all_iff set_takeWhileD)
  with i sch p show ?thesis by (auto simp: add.commute)
qed

lemma verifyJWT_body: "verifyJWT P (req\<lparr>body := bd\<rparr>) = verifyJWT P req"
  by (simp add: verifyJWT_def)

lemma handler_add_rejects:
  "verifyJWT P req = None \<Longrightarrow> handler_add P amb res s req = (Inr (unauthorized res None), s)"
  by (simp add: handler_add_def)

lemma unauthorized_response:
  "statusCode (unauthorized res m) = 401"
  "payload (unauthorized res None)
     = Some (JObj [(lit ''ok'', JBool False), (lit ''error'', JStr (lit ''Unauthorized''))])"
  by (simp_all add: unauthorized_def json_def setHeader_def)

lemma handler_login_route:
  assumes "http_method req = lit ''POST''" "URL_pathname P (url req) = Some (lit ''/api/login'')"
  shows "handler P amb s req = (Inr (handler_login P (cors fresh_response) req), s)"
  using assms by (simp add: handler_def lit_def)

section \<open>C1: the copy of the cache wins\<close>




section \<open>C2: most recent first\<close>

text \<open>
  C2, as the specification has it: for every state of the two stores the listing is ordered
  by \<^verbatim>\<open>createdAt\<close>, most recent first.

  In \<open>state_gap\<close> the file holds \<^verbatim>\<open>a\<close> of 2020, \<^verbatim>\<open>b\<close> without \<^verbatim>\<open>createdAt\<close> and \<^verbatim>\<open>c\<close> of 2021.
  The time of \<^verbatim>\<open>b\<close> is \<^verbatim>\<open>NaN\<close>, every comparison with \<^verbatim>\<open>b\<close> is \<^verbatim>\<open>NaN\<close> and counts as \<open>0\<close>, so the
  array is left as it is (by the stable insertion sort of the model, and by the run
  detection of the sort of V8 alike): \<^verbatim>\<open>a\<close> of 2020 is listed before \<^verbatim>\<open>c\<close> of 2021.
\<close>

theorem C2_counterexample:
  "getAllNews example_platform state_gap = Inr [entry_a, entry_b, entry_c]
   \<and> timeOf example_platform entry_a = Some 1577836800000
   \<and> timeOf example_platform entry_b = None
   \<and> timeOf example_platform entry_c = Some 1609459200000
   \<and> \<not> newest_first example_platform [entry_a, entry_b, entry_c]"
  by (simp add: ex_defs js_defs)

text \<open>
  C2, amended: in every state in which each entry that survives the merge has a
  \<^verbatim>\<open>createdAt\<close> that denotes a time, the listing returns the surviving entries most recent
  first; three entries with times \<open>T1 < T2 < T3\<close> come in the order \<open>T3\<close>, \<open>T2\<close>, \<open>T1\<close>.
\<close>

theorem C2_newest_first:
  assumes "\<forall>n\<in>set (merged_news P s). timeOf P n \<noteq> None"
  shows "\<exists>xs. getAllNews P s = Inr xs
           \<and> mset xs = mset (merged_news P s)
           \<and> newest_first P xs
           \<and> (\<forall>a b c T1 T2 T3.
                 mset (merged_news P s) = {#a, b, c#}
                 \<and> timeOf P a = Some T1 \<and> timeOf P b = Some T2 \<and> timeOf P c = Some T3
                 \<and> T1 < T2 \<and> T2 < T3
                 \<longrightarrow> xs = [c, b, a])"
proof -
  let ?f = "\<lambda>n. - the (timeOf P n)"
  let ?xs = "sort_key ?f (merged_news P s)"
  have r: "getAllNews P s = Inr ?xs"
    unfolding getAllNews_def using assms by (rule Array_sort_sort_key)
  have m: "mset ?xs = mset (merged_news P s)" by simp
  have n: "newest_first P ?xs" using assms by (rule newest_first_sort_key)
  have t: "?xs = [c, b, a]"
    if "mset (merged_news P s) = {#a, b, c#}"
      "timeOf P a = Some T1" "timeOf P b = Some T2" "timeOf P c = Some T3" "T1 < T2" "T2 < T3"
    for a b c T1 T2 T3
    using that by (intro sort_key_three) simp_all
  from r m n t show ?thesis by blast
qed

text \<open>An instance: \<^verbatim>\<open>n_1\<close> of 2021 in the cache, \<^verbatim>\<open>a\<close> of 2020 and \<^verbatim>\<open>n_0\<close> of 2022 in the file.\<close>

theorem C2_newest_first_witness:
  "list_all (\<lambda>n. timeOf example_platform n \<noteq> None) (merged_news example_platform state_ok)
   \<and> merged_news example_platform state_ok = [item_obj item_n1, entry_a, entry_n0]
   \<and> timeOf example_platform entry_a = Some 1577836800000
   \<and> timeOf example_platform (item_obj item_n1) = Some 1609459200000
   \<and> timeOf example_platform entry_n0 = Some 1640995200000
   \<and> getAllNews example_platform state_ok = Inr [entry_n0, item_obj item_n1, entry_a]
   \<and> newest_first example_platform [entry_n0, item_obj item_n1, entry_a]"
proof -
  have m: "merged_news example_platform state_ok = [item_obj item_n1, entry_a, entry_n0]"
    by (simp add: ex_defs js_defs)
  have ta: "timeOf example_platform entry_a = Some 1577836800000" by (simp add: ex_defs js_defs)
  have tb: "timeOf example_platform (item_obj item_n1) = Some 1609459200000" by (simp add: ex_defs js_defs)
  have tc: "timeOf example_platform entry_n0 = Some 1640995200000" by (simp add: ex_defs js_defs)
  have hl: "list_all (\<lambda>n. timeOf example_platform n \<noteq> None) (merged_news example_platform state_ok)"
    unfolding m using ta tb tc by simp
  then have h: "\<forall>n\<in>set (merged_news example_platform state_ok). timeOf example_platform n \<noteq> None"
    by (simp add: list_all_iff)
  from C2_newest_first[OF h] obtain xs where
    r: "getAllNews example_platform state_ok = Inr xs"
    and n: "newest_first example_platform xs"
    and t: "\<And>a b c T1 T2 T3. mset (merged_news example_platform state_ok) = {#a, b, c#}
                 \<and> timeOf example_platform a = Some T1 \<and> timeOf example_platform b = Some T2
                 \<and> timeOf example_platform c = Some T3
                 \<and> T1 < T2 \<and> T2 < T3 \<Longrightarrow> xs = [c, b, a]"
    by blast
  have "mset (merged_news example_platform state_ok) = {#entry_a, item_obj item_n1, entry_n0#}"
    unfolding m by simp
  with t[of entry_a "item_obj item_n1" entry_n0] ta tb tc
  have "xs = [entry_n0, item_obj item_n1, entry_a]" by simp
  with r n hl m ta tb tc show ?thesis by simp
qed

section \<open>C3: an added item is listed\<close>

text \<open>
  C3, as the specification has it: after a successful add, the listing contains exactly one
  item with that text, source and image URL, and it carries a fresh id, different from the
  id of every item that existed before.

  The handler never compares the new id with the existing ones: \<^verbatim>\<open>makeId\<close> joins eight
  digits of \<^verbatim>\<open>Math.random()\<close> and the clock. In \<open>state_clash\<close> the cache holds an item whose id
  is the one that \<^verbatim>\<open>makeId\<close> builds from the same random digits and the same clock reading:
  the new item gets an id that existed before, and the older item is no longer listed.
  Nor is the new item the only one with its text when that text was added before: in
  \<open>state_hello\<close> the cache already holds an item with the text \<^verbatim>\<open>hello\<close> and no source or
  image, and after adding \<^verbatim>\<open>{"text":"hello"}\<close> the listing holds two items with that text,
  source and image URL.
\<close>

theorem C3_counterexample:
  "runtimeNewsCache state_clash = Some [item_clash]
   \<and> fst (handler example_platform example_ambient state_clash
            (request_with_token ''POST'' ''/api/news'' body_hello))
       = Inr (created (new_item example_ambient (lit ''hello'') [] []))
   \<and> item_id (new_item example_ambient (lit ''hello'') [] []) = item_id item_clash
   \<and> getAllNews example_platform
         (snd (handler example_platform example_ambient state_clash
                 (request_with_token ''POST'' ''/api/news'' body_hello)))
       = Inr [item_obj (new_item example_ambient (lit ''hello'') [] [])]
   \<and> fst (handler example_platform example_ambient state_hello
            (request_with_token ''POST'' ''/api/news'' body_hello))
       = Inr (created (new_item example_ambient (lit ''hello'') [] []))
   \<and> getAllNews example_platform
         (snd (handler example_platform example_ambient state_hello
                 (request_with_token ''POST'' ''/api/news'' body_hello)))
       = Inr [item_obj (new_item example_ambient (lit ''hello'') [] []), item_obj item_hello]
   \<and> filter (has_fields (lit ''hello'') [] [])
         [item_obj (new_item example_ambient (lit ''hello'') [] []), item_obj item_hello]
       = [item_obj (new_item example_ambient (lit ''hello'') [] []), item_obj item_hello]"
  by (simp add: ex_defs js_defs)

text \<open>
  C3, amended: for every valid input (the three fields convert, the text is not empty
  after trimming), an add by an authenticated request answers \<^verbatim>\<open>201\<close> with an item that
  carries that text, source and image URL and the id built by \<^verbatim>\<open>makeId\<close>; a listing that
  follows immediately (in a state where each surviving entry has a \<^verbatim>\<open>createdAt\<close> that
  \<^verbatim>\<open>new Date\<close> accepts) returns, holds the new item and no other entry with its id; and
  the new item is the only listed entry with that text, source and image URL if no other
  surviving entry carries the same three values.
\<close>

theorem C3_added_item_listed:
  assumes "http_method req = lit ''POST''" "URL_pathname P (url req) = Some (lit ''/api/news'')"
    and "verifyJWT P req = Some v" "body req = Some bodyText" "parse_body P bodyText = Some b"
    and "field P b ''text'' = Inr t" "field P b ''source'' = Inr so"
    and "field P b ''imageUrl'' = Inr im" "t \<noteq> []"
    and "\<forall>n\<in>set (merged_news P (snd (handler P amb s req))). convertible P n"
  shows "fst (handler P amb s req) = Inr (created (new_item amb t so im))
         \<and> item_id (new_item amb t so im) = makeId amb
         \<and> has_fields t so im (item_obj (new_item amb t so im))
         \<and> (\<exists>xs. getAllNews P (snd (handler P amb s req)) = Inr xs
               \<and> filter (has_id (JStr (makeId amb))) xs = [item_obj (new_item amb t so im)]
               \<and> ((\<forall>n\<in>set (merged_news P (snd (handler P amb s req))).
                      has_fields t so im n \<longrightarrow> n = item_obj (new_item amb t so im))
                    \<longrightarrow> filter (has_fields t so im) xs = [item_obj (new_item amb t so im)]))"
proof -
  let ?it = "new_item amb t so im"
  let ?s' = "snd (handler P amb s req)"
  have h: "handler P amb s req = handler_add P amb (cors fresh_response) s req"
    using assms(1,2) by (rule handler_news_post)
  have r: "fst (handler P amb s req) = Inr (created ?it)"
    unfolding h using assms(3-9) by (rule handler_add_accepted(1))
  have c: "runtimeNewsCache ?s'
             = Some (?it # (case runtimeNewsCache s of Some xs \<Rightarrow> xs | None \<Rightarrow> []))"
    unfolding h using assms(3-9) by (rule handler_add_accepted(2))
  have i: "item_id ?it = makeId amb" by (simp add: new_item_def)
  have f: "has_fields t so im (item_obj ?it)" by (simp add: has_fields_item_obj new_item_def)
  have ne: "item_id ?it \<noteq> []" using i makeId_not_empty by simp
  from listed_after_add[OF c ne assms(10)] obtain xs where
    xs: "getAllNews P ?s' = Inr xs" and ms: "mset xs = mset (merged_news P ?s')"
    and one: "filter (has_id (JStr (item_id ?it))) xs = [item_obj ?it]"
    by blast
  have st: "set xs = set (merged_news P ?s')" using ms by (rule mset_eq_setD)
  have only: "filter (has_fields t so im) xs = [item_obj ?it]"
    if "\<forall>n\<in>set (merged_news P ?s'). has_fields t so im n \<longrightarrow> n = item_obj ?it"
    using one _ f by (rule filter_eq_of_single) (use that st in simp)
  from xs one only
  have "\<exists>xs. getAllNews P ?s' = Inr xs
           \<and> filter (has_id (JStr (makeId amb))) xs = [item_obj ?it]
           \<and> ((\<forall>n\<in>set (merged_news P ?s'). has_fields t so im n \<longrightarrow> n = item_obj ?it)
                \<longrightarrow> filter (has_fields t so im) xs = [item_obj ?it])"
    unfolding i by blast
  with r i f show ?thesis by blast
qed

text \<open>An instance: \<^verbatim>\<open>{"text":"hello"}\<close> added to \<open>state_ok\<close>.\<close>

theorem C3_added_item_listed_witness:
  "http_method (request_with_token ''POST'' ''/api/news'' body_hello) = lit ''POST''
   \<and> URL_pathname example_platform (url (request_with_token ''POST'' ''/api/news'' body_hello))
       = Some (lit ''/api/news'')
   \<and> verifyJWT example_platform (request_with_token ''POST'' ''/api/news'' body_hello)
       = Some example_admin
   \<and> parse_body example_platform body_hello = Some (JObj [(lit ''text'', JStr (lit ''hello''))])
   \<and> field example_platform (JObj [(lit ''text'', JStr (lit ''hello''))]) ''text'' = Inr (lit ''hello'')
   \<and> list_all (convertible example_platform)
         (merged_news example_platform
            (snd (handler example_platform example_ambient state_ok
                    (request_with_token ''POST'' ''/api/news'' body_hello))))
   \<and> fst (handler example_platform example_ambient state_ok
            (request_with_token ''POST'' ''/api/news'' body_hello))
       = Inr (created (new_item example_ambient (lit ''hello'') [] []))
   \<and> getAllNews example_platform
         (snd (handler example_platform example_ambient state_ok
                 (request_with_token ''POST'' ''/api/news'' body_hello)))
       = Inr [entry_n0, item_obj (new_item example_ambient (lit ''hello'') [] []),
              item_obj item_n1, entry_a]
   \<and> filter (has_id (JStr (makeId example_ambient)))
         [entry_n0, item_obj (new_item example_ambient (lit ''hello'') [] []),
          item_obj item_n1, entry_a]
       = [item_obj (new_item example_ambient (lit ''hello'') [] [])]"
proof -
  let ?req = "request_with_token ''POST'' ''/api/news'' body_hello"
  let ?b = "JObj [(lit ''text'', JStr (lit ''hello''))]"
  let ?s' = "snd (handler example_platform example_ambient state_ok ?req)"
  have h1: "http_method ?req = lit ''POST''" by (simp add: request_with_token_def)
  have h2: "URL_pathname example_platform (url ?req) = Some (lit ''/api/news'')"
    by (simp add: ex_defs)
  have h3: "verifyJWT example_platform ?req = Some example_admin"
    by (simp add: ex_defs js_defs)
  have h4: "body ?req = Some body_hello" by (simp add: request_with_token_def)
  have h5: "parse_body example_platform body_hello = Some ?b"
    by (simp add: parse_body_def parse_body_hello body_texts_not_empty)
  have h6: "field example_platform ?b ''text'' = Inr (lit ''hello'')"
    by (simp add: ex_defs js_defs)
  have h7: "field example_platform ?b ''source'' = Inr []" by (simp add: ex_defs js_defs)
  have h8: "field example_platform ?b ''imageUrl'' = Inr []" by (simp add: ex_defs js_defs)
  have h9: "lit ''hello'' \<noteq> []" by (simp add: lit_def)
  have h10l: "list_all (convertible example_platform) (merged_news example_platform ?s')"
    by (simp add: ex_defs js_defs)
  then have h10: "\<forall>n\<in>set (merged_news example_platform ?s'). convertible example_platform n"
    by (simp add: list_all_iff)
  have l: "getAllNews example_platform ?s'
             = Inr [entry_n0, item_obj (new_item example_ambient (lit ''hello'') [] []),
                    item_obj item_n1, entry_a]"
    by (simp add: ex_defs js_defs)
  from C3_added_item_listed[OF h1 h2 h3 h4 h5 h6 h7 h8 h9 h10] l
  have "fst (handler example_platform example_ambient state_ok ?req)
          = Inr (created (new_item example_ambient (lit ''hello'') [] []))
        \<and> filter (has_id (JStr (makeId example_ambient)))
              [entry_n0, item_obj (new_item example_ambient (lit ''hello'') [] []),
               item_obj item_n1, entry_a]
            = [item_obj (new_item example_ambient (lit ''hello'') [] [])]"
    by auto
  with h1 h2 h3 h5 h6 h10l l show ?thesis by blast
qed

section \<open>C4: an empty text is refused\<close>

text \<open>
  C4, as the specification has it: for every request body whose text trims to the empty
  string, add fails with \<^verbatim>\<open>400\<close> and \<^verbatim>\<open>text is required\<close>, and nothing is stored.

  The handler converts \<^verbatim>\<open>text\<close>, \<^verbatim>\<open>source\<close> and \<^verbatim>\<open>imageUrl\<close> (lines 156 to 158) before it tests
  \<^verbatim>\<open>text\<close> (line 160). For the body \<^verbatim>\<open>{"text":"","source":{"toString":1}}\<close> the text is empty,
  but \<^verbatim>\<open>String\<close> of the source raises \<^verbatim>\<open>TypeError\<close>, and the handler ends with that exception
  and no response.
\<close>

theorem C4_counterexample:
  "parse_body example_platform body_bad_source
     = Some (JObj [(lit ''text'', JStr []), (lit ''source'', JObj [(lit ''toString'', JNum 1)])])
   \<and> field example_platform
         (JObj [(lit ''text'', JStr []), (lit ''source'', JObj [(lit ''toString'', JNum 1)])])
         ''text'' = Inr []
   \<and> handler example_platform example_ambient state_hello
         (request_with_token ''POST'' ''/api/news'' body_bad_source)
       = (Inl TypeError, state_hello)"
  by (simp add: ex_defs js_defs)

text \<open>
  C4, amended: for every body, read and parsed, of an authenticated add whose text
  trims to the empty string and whose source and image URL can be converted to strings,
  the answer is \<^verbatim>\<open>400\<close> with \<^verbatim>\<open>text is required\<close>; whenever the text trims to the empty string the
  cache and the durable store are left as they were; and no other \<^verbatim>\<open>400\<close> is given for a
  parsed body.
\<close>

theorem C4_empty_text_refused:
  assumes "http_method req = lit ''POST''" "URL_pathname P (url req) = Some (lit ''/api/news'')"
    and "verifyJWT P req = Some v" "body req = Some bodyText" "parse_body P bodyText = Some b"
  shows "(field P b ''text'' = Inr [] \<and> \<not> isl (field P b ''source'')
            \<and> \<not> isl (field P b ''imageUrl'')
          \<longrightarrow> handler P amb s req
                = (Inr (badRequest (cors fresh_response) ''text is required''), s))
         \<and> (field P b ''text'' = Inr [] \<longrightarrow> snd (handler P amb s req) = s)
         \<and> (\<forall>r. fst (handler P amb s req) = Inr r \<and> statusCode r = 400
               \<longrightarrow> field P b ''text'' = Inr []
                   \<and> r = badRequest (cors fresh_response) ''text is required'')
         \<and> statusCode (badRequest (cors fresh_response) ''text is required'') = 400
         \<and> payload (badRequest (cors fresh_response) ''text is required'')
             = Some (JObj [(lit ''ok'', JBool False),
                           (lit ''error'', JStr (lit ''text is required''))])"
proof -
  have h: "handler P amb s req = handler_add P amb (cors fresh_response) s req"
    using assms(1,2) by (rule handler_news_post)
  have a: "handler P amb s req
             = (Inr (badRequest (cors fresh_response) ''text is required''), s)"
    if "field P b ''text'' = Inr []" "\<not> isl (field P b ''source'')"
      "\<not> isl (field P b ''imageUrl'')"
    unfolding h using assms(3-5) that
    by (auto simp: handler_add_def split: sum.splits)
  have b: "snd (handler P amb s req) = s" if "field P b ''text'' = Inr []"
    unfolding h using assms(3-5) that
    by (auto simp: handler_add_def split: sum.splits)
  have c: "field P b ''text'' = Inr [] \<and> r = badRequest (cors fresh_response) ''text is required''"
    if "fst (handler P amb s req) = Inr r" "statusCode r = 400" for r
    using that unfolding h using assms(3-5)
    by (auto simp: handler_add_def Let_def json_def setHeader_def badRequest_def
             split: sum.splits if_splits)
  have d: "statusCode (badRequest (cors fresh_response) ''text is required'') = 400"
    by (simp add: badRequest_def json_def setHeader_def)
  have e: "payload (badRequest (cors fresh_response) ''text is required'')
             = Some (JObj [(lit ''ok'', JBool False),
                           (lit ''error'', JStr (lit ''text is required''))])"
    by (simp add: badRequest_def json_def setHeader_def)
  from a b c d e show ?thesis by blast
qed

text \<open>An instance: the body \<^verbatim>\<open>{"text":"  "}\<close>.\<close>

theorem C4_empty_text_refused_witness:
  "http_method (request_with_token ''POST'' ''/api/news'' body_blank) = lit ''POST''
   \<and> URL_pathname example_platform (url (request_with_token ''POST'' ''/api/news'' body_blank))
       = Some (lit ''/api/news'')
   \<and> verifyJWT example_platform (request_with_token ''POST'' ''/api/news'' body_blank)
       = Some example_admin
   \<and> parse_body example_platform body_blank = Some (JObj [(lit ''text'', JStr (lit ''  ''))])
   \<and> field example_platform (JObj [(lit ''text'', JStr (lit ''  ''))]) ''text'' = Inr []
   \<and> \<not> isl (field example_platform (JObj [(lit ''text'', JStr (lit ''  ''))]) ''source'')
   \<and> \<not> isl (field example_platform (JObj [(lit ''text'', JStr (lit ''  ''))]) ''imageUrl'')
   \<and> handler example_platform example_ambient state_hello
         (request_with_token ''POST'' ''/api/news'' body_blank)
       = (Inr (badRequest (cors fresh_response) ''text is required''), state_hello)"
proof -
  let ?req = "request_with_token ''POST'' ''/api/news'' body_blank"
  let ?b = "JObj [(lit ''text'', JStr (lit ''  ''))]"
  have h1: "http_method ?req = lit ''POST''" by (simp add: request_with_token_def)
  have h2: "URL_pathname example_platform (url ?req) = Some (lit ''/api/news'')"
    by (simp add: ex_defs)
  have h3: "verifyJWT example_platform ?req = Some example_admin"
    by (simp add: ex_defs js_defs)
  have h4: "body ?req = Some body_blank" by (simp add: request_with_token_def)
  have h5: "parse_body example_platform body_blank = Some ?b"
    by (simp add: parse_body_def parse_body_blank body_texts_not_empty)
  have f1: "field example_platform ?b ''text'' = Inr []" by (simp add: ex_defs js_defs)
  have f2: "\<not> isl (field example_platform ?b ''source'')" by (simp add: ex_defs js_defs)
  have f3: "\<not> isl (field example_platform ?b ''imageUrl'')" by (simp add: ex_defs js_defs)
  from C4_empty_text_refused[OF h1 h2 h3 h4 h5, of example_ambient state_hello] f1 f2 f3
  have "handler example_platform example_ambient state_hello ?req
          = (Inr (badRequest (cors fresh_response) ''text is required''), state_hello)"
    by blast
  with h1 h2 h3 h5 f1 f2 f3 show ?thesis by blast
qed

section \<open>C5: errors of the durable store are absorbed\<close>

text \<open>
  C5, as the specification has it: errors of the durable store never reach the caller;
  for every state of the store, absent, unreadable or malformed, the listing treats its
  contents as the empty sequence and returns normally, and an add answers \<^verbatim>\<open>201\<close> with the
  item whether or not the write succeeds.

  Only \<^verbatim>\<open>readNewsFromFile\<close> has a \<^verbatim>\<open>try\<close> (lines 15 to 23); the merge and the sort of
  \<^verbatim>\<open>getAllNews\<close> have none. In \<open>state_shadow\<close> the file can be read and is JSON with an array
  \<^verbatim>\<open>news\<close>, but one entry is malformed: its \<^verbatim>\<open>createdAt\<close> is the object \<^verbatim>\<open>{"toString":1}\<close>. The
  contents are not treated as empty, \<^verbatim>\<open>new Date\<close> of that object raises \<^verbatim>\<open>TypeError\<close> in the
  sort, and \<^verbatim>\<open>GET /api/news\<close> ends with that exception and no response.
\<close>

theorem C5_counterexample:
  "content (fs state_shadow) = Some file_shadow
   \<and> JSON_parse example_platform file_shadow
       = Some (JObj [(lit ''news'', JArr [old_n1, entry_z])])
   \<and> \<not> store_unusable example_platform (fs state_shadow)
   \<and> readNewsFromFile example_platform (fs state_shadow) = [old_n1, entry_z]
   \<and> Get entry_z (lit ''createdAt'') = Some (JObj [(lit ''toString'', JNum 1)])
   \<and> getAllNews example_platform state_shadow = Inl TypeError
   \<and> handler example_platform example_ambient state_shadow
         (request_without_token ''GET'' ''/api/news'' [])
       = (Inl TypeError, state_shadow)"
  by (simp add: ex_defs js_defs)

text \<open>
  C5, amended: errors of reading, parsing and writing the durable store never reach the
  caller. Whenever the file cannot be read, or is not JSON, or has no array \<^verbatim>\<open>news\<close>,
  \<^verbatim>\<open>readNewsFromFile\<close> gives the empty sequence, the listing returns what the cache alone
  gives, and \<^verbatim>\<open>GET /api/news\<close> answers \<^verbatim>\<open>200\<close> with it. In every state the listing returns
  exactly when at most one entry survives the merge or each surviving entry has a
  \<^verbatim>\<open>createdAt\<close> that \<^verbatim>\<open>new Date\<close> accepts, and \<^verbatim>\<open>GET /api/news\<close> then answers \<^verbatim>\<open>200\<close> with the
  listing. An add whose fields are valid answers \<^verbatim>\<open>201\<close> with the item it built and puts
  the item first in the cache whether or not the file can be written; when the write
  fails the file system is as before.
\<close>

theorem C5_store_errors_absorbed:
  "(store_unusable P (fs s)
      \<longrightarrow> readNewsFromFile P (fs s) = []
          \<and> (\<exists>xs. getAllNews P s = Inr xs
                \<and> mset xs
                    = mset (merge_loop
                              (map item_obj (case runtimeNewsCache s of Some c \<Rightarrow> c | None \<Rightarrow> []))
                              [] [])
                \<and> (http_method req = lit ''GET''
                      \<and> URL_pathname P (url req) = Some (lit ''/api/news'')
                    \<longrightarrow> handler P amb s req
                          = (Inr (json (cors fresh_response) 200
                                   (JObj [(lit ''ok'', JBool True), (lit ''news'', JArr xs)])), s))))
   \<and> ((\<exists>xs. getAllNews P s = Inr xs)
        \<longleftrightarrow> length (merged_news P s) \<le> 1
            \<or> (\<forall>n\<in>set (merged_news P s). convertible P n))
   \<and> (\<forall>xs. getAllNews P s = Inr xs \<and> http_method req = lit ''GET''
            \<and> URL_pathname P (url req) = Some (lit ''/api/news'')
          \<longrightarrow> handler P amb s req
                = (Inr (json (cors fresh_response) 200
                         (JObj [(lit ''ok'', JBool True), (lit ''news'', JArr xs)])), s))
   \<and> (http_method req = lit ''POST'' \<and> URL_pathname P (url req) = Some (lit ''/api/news'')
        \<and> verifyJWT P req = Some v \<and> body req = Some bodyText
        \<and> parse_body P bodyText = Some b
        \<and> field P b ''text'' = Inr t \<and> field P b ''source'' = Inr so
        \<and> field P b ''imageUrl'' = Inr im \<and> t \<noteq> []
      \<longrightarrow> fst (handler P amb s req) = Inr (created (new_item amb t so im))
          \<and> statusCode (created (new_item amb t so im)) = 201
          \<and> payload (created (new_item amb t so im))
              = Some (JObj [(lit ''ok'', JBool True),
                            (lit ''item'', item_obj (new_item amb t so im))])
          \<and> runtimeNewsCache (snd (handler P amb s req))
              = Some (new_item amb t so im
                       # (case runtimeNewsCache s of Some c \<Rightarrow> c | None \<Rightarrow> []))
          \<and> (\<not> writable (fs s) \<longrightarrow> fs (snd (handler P amb s req)) = fs s))"
proof -
  have listing: "handler P amb s req
             = (Inr (json (cors fresh_response) 200
                      (JObj [(lit ''ok'', JBool True), (lit ''news'', JArr xs)])), s)"
    if "getAllNews P s = Inr xs \<and> http_method req = lit ''GET''
        \<and> URL_pathname P (url req) = Some (lit ''/api/news'')" for xs
    using that by (simp add: handler_def lit_def)
  have p1: "readNewsFromFile P (fs s) = []
          \<and> (\<exists>xs. getAllNews P s = Inr xs
                \<and> mset xs
                    = mset (merge_loop
                              (map item_obj (case runtimeNewsCache s of Some c \<Rightarrow> c | None \<Rightarrow> []))
                              [] [])
                \<and> (http_method req = lit ''GET''
                      \<and> URL_pathname P (url req) = Some (lit ''/api/news'')
                    \<longrightarrow> handler P amb s req
                          = (Inr (json (cors fresh_response) 200
                                   (JObj [(lit ''ok'', JBool True), (lit ''news'', JArr xs)])), s)))"
    if u: "store_unusable P (fs s)"
  proof -
    let ?cache = "case runtimeNewsCache s of Some c \<Rightarrow> c | None \<Rightarrow> []"
    have e: "readNewsFromFile P (fs s) = []"
      using u by (auto simp: store_unusable_def readNewsFromFile_def
                       split: option.splits jsvalue.splits)
    have m: "merged_news P s = merge_loop (map item_obj ?cache) [] []"
      using e by (simp add: merged_news_def split: option.splits)
    have "\<forall>n\<in>set (merged_news P s). convertible P n"
    proof
      fix n assume "n \<in> set (merged_news P s)"
      then have "n \<in> item_obj ` set ?cache" using merged_news_subset[of n P s] e by simp
      then show "convertible P n" using convertible_item_obj by auto
    qed
    from getAllNews_returns[OF this] obtain xs
      where xs: "getAllNews P s = Inr xs" and ms: "mset xs = mset (merged_news P s)"
      by blast
    from xs listing[of xs]
    have g: "http_method req = lit ''GET'' \<and> URL_pathname P (url req) = Some (lit ''/api/news'')
               \<longrightarrow> handler P amb s req
                     = (Inr (json (cors fresh_response) 200
                              (JObj [(lit ''ok'', JBool True), (lit ''news'', JArr xs)])), s)"
      by blast
    from e xs ms g show ?thesis unfolding m by blast
  qed
  have p2: "(\<exists>xs. getAllNews P s = Inr xs)
        \<longleftrightarrow> length (merged_news P s) \<le> 1
            \<or> (\<forall>n\<in>set (merged_news P s). convertible P n)"
    by (rule getAllNews_returns_iff)
  have p4: "fst (handler P amb s req) = Inr (created (new_item amb t so im))
          \<and> statusCode (created (new_item amb t so im)) = 201
          \<and> payload (created (new_item amb t so im))
              = Some (JObj [(lit ''ok'', JBool True),
                            (lit ''item'', item_obj (new_item amb t so im))])
          \<and> runtimeNewsCache (snd (handler P amb s req))
              = Some (new_item amb t so im
                       # (case runtimeNewsCache s of Some c \<Rightarrow> c | None \<Rightarrow> []))
          \<and> (\<not> writable (fs s) \<longrightarrow> fs (snd (handler P amb s req)) = fs s)"
    if a: "http_method req = lit ''POST'' \<and> URL_pathname P (url req) = Some (lit ''/api/news'')
        \<and> verifyJWT P req = Some v \<and> body req = Some bodyText
        \<and> parse_body P bodyText = Some b
        \<and> field P b ''text'' = Inr t \<and> field P b ''source'' = Inr so
        \<and> field P b ''imageUrl'' = Inr im \<and> t \<noteq> []"
  proof -
    from a have h: "handler P amb s req = handler_add P amb (cors fresh_response) s req"
      by (simp add: handler_news_post)
    from a have a3: "verifyJWT P req = Some v" and a4: "body req = Some bodyText"
      and a5: "parse_body P bodyText = Some b" and a6: "field P b ''text'' = Inr t"
      and a7: "field P b ''source'' = Inr so" and a8: "field P b ''imageUrl'' = Inr im"
      and a9: "t \<noteq> []"
      by simp_all
    note acc = handler_add_accepted[OF a3 a4 a5 a6 a7 a8 a9, where amb = amb and s = s]
    have r1: "fst (handler P amb s req) = Inr (created (new_item amb t so im))"
      unfolding h by (rule acc(1))
    have r2: "statusCode (created (new_item amb t so im)) = 201"
      by (simp add: created_def json_def setHeader_def)
    have r3: "payload (created (new_item amb t so im))
            = Some (JObj [(lit ''ok'', JBool True), (lit ''item'', item_obj (new_item amb t so im))])"
      by (simp add: created_def json_def setHeader_def)
    have r4: "runtimeNewsCache (snd (handler P amb s req))
            = Some (new_item amb t so im # (case runtimeNewsCache s of Some c \<Rightarrow> c | None \<Rightarrow> []))"
      unfolding h by (rule acc(2))
    have r5: "fs (snd (handler P amb s req)) = fs s" if "\<not> writable (fs s)"
      unfolding h using that by (rule acc(3))
    from r1 r2 r3 r4 r5 show ?thesis by blast
  qed
  from p1 p2 listing p4 show ?thesis by (intro conjI allI impI) blast+
qed

text \<open>
  Instances: a listing over a file that breaks off after \<^verbatim>\<open>{"news":[\<close>, and an add on a
  read-only file system.
\<close>

theorem C5_store_errors_absorbed_witness:
  "store_unusable example_platform (fs state_broken)
   \<and> readNewsFromFile example_platform (fs state_broken) = []
   \<and> getAllNews example_platform state_broken = Inr [item_obj item_n1]
   \<and> length (merged_news example_platform state_broken) \<le> 1
   \<and> handler example_platform example_ambient state_broken
         (request_without_token ''GET'' ''/api/news'' [])
       = (Inr (json (cors fresh_response) 200
                (JObj [(lit ''ok'', JBool True), (lit ''news'', JArr [item_obj item_n1])])),
          state_broken)
   \<and> verifyJWT example_platform (request_with_token ''POST'' ''/api/news'' body_hello)
       = Some example_admin
   \<and> parse_body example_platform body_hello = Some (JObj [(lit ''text'', JStr (lit ''hello''))])
   \<and> field example_platform (JObj [(lit ''text'', JStr (lit ''hello''))]) ''text''
       = Inr (lit ''hello'')
   \<and> \<not> writable (fs state_broken)
   \<and> handler example_platform example_ambient state_broken
         (request_with_token ''POST'' ''/api/news'' body_hello)
       = (Inr (created (new_item example_ambient (lit ''hello'') [] [])),
          state_broken\<lparr>runtimeNewsCache
                          := Some [new_item example_ambient (lit ''hello'') [] [], item_n1]\<rparr>)"
proof -
  let ?get = "request_without_token ''GET'' ''/api/news'' []"
  let ?post = "request_with_token ''POST'' ''/api/news'' body_hello"
  let ?b = "JObj [(lit ''text'', JStr (lit ''hello''))]"
  have u: "store_unusable example_platform (fs state_broken)" by (simp add: ex_defs js_defs)
  have g: "http_method ?get = lit ''GET''
           \<and> URL_pathname example_platform (url ?get) = Some (lit ''/api/news'')"
    by (simp add: ex_defs)
  have l: "getAllNews example_platform state_broken = Inr [item_obj item_n1]"
    by (simp add: ex_defs js_defs)
  from C5_store_errors_absorbed[of example_platform state_broken ?get example_ambient] u g l
  have p1: "readNewsFromFile example_platform (fs state_broken) = []
            \<and> handler example_platform example_ambient state_broken ?get
                = (Inr (json (cors fresh_response) 200
                         (JObj [(lit ''ok'', JBool True), (lit ''news'', JArr [item_obj item_n1])])),
                   state_broken)"
    by auto
  have a1: "verifyJWT example_platform ?post = Some example_admin"
    by (simp add: ex_defs js_defs)
  have a2: "parse_body example_platform body_hello = Some ?b"
    by (simp add: parse_body_def parse_body_hello body_texts_not_empty)
  have a3: "field example_platform ?b ''text'' = Inr (lit ''hello'')"
    by (simp add: ex_defs js_defs)
  have a4: "\<not> writable (fs state_broken)" by (simp add: ex_defs)
  have p2: "handler example_platform example_ambient state_broken ?post
          = (Inr (created (new_item example_ambient (lit ''hello'') [] [])),
             state_broken\<lparr>runtimeNewsCache
                             := Some [new_item example_ambient (lit ''hello'') [] [], item_n1]\<rparr>)"
    by (simp add: ex_defs js_defs)
  have sh: "length (merged_news example_platform state_broken) \<le> 1"
    by (simp add: ex_defs js_defs)
  from u l sh p1 a1 a2 a3 a4 p2 show ?thesis by blast
qed

section \<open>C6: how the fields are normalised\<close>

text \<open>
  C6, as the specification has it: for every accepted body, source and image URL default
  to the empty string, the three fields are trimmed, and any value that is not a string
  is brought to its string form before trimming.

  The handler computes \<^verbatim>\<open>String(body?.k || "").trim()\<close>: a falsy value is replaced by the empty
  string before \<^verbatim>\<open>String\<close> sees it. The body \<^verbatim>\<open>{"text":"x","source":0}\<close> is accepted and the item
  has the source \<^verbatim>\<open>""\<close>, while the string form of \<^verbatim>\<open>0\<close> is \<^verbatim>\<open>"0"\<close>.
\<close>

theorem C6_counterexample:
  "parse_body example_platform body_zero_source
     = Some (JObj [(lit ''text'', JStr (lit ''x'')), (lit ''source'', JNum 0)])
   \<and> fst (handler example_platform example_ambient state_empty
            (request_with_token ''POST'' ''/api/news'' body_zero_source))
       = Inr (created (new_item example_ambient (lit ''x'') [] []))
   \<and> ToString example_platform (JNum 0) = Inr (lit ''0'')
   \<and> spec_field example_platform
         (JObj [(lit ''text'', JStr (lit ''x'')), (lit ''source'', JNum 0)]) ''source''
       = Inr (lit ''0'')
   \<and> field example_platform
         (JObj [(lit ''text'', JStr (lit ''x'')), (lit ''source'', JNum 0)]) ''source''
       = Inr []"
  by (simp add: ex_defs js_defs digits10.simps)

text \<open>
  C6, amended: for every body accepted by add (the answer is \<^verbatim>\<open>201\<close>), the item carries
  the three normalised fields and its text is not empty, where a field is normalised
  so: an absent field and a falsy value (\<^verbatim>\<open>null\<close>, \<^verbatim>\<open>false\<close>, \<^verbatim>\<open>0\<close>, \<^verbatim>\<open>""\<close>) give the empty string; a
  string is trimmed; any other value is brought to its string form and trimmed; a
  positive integer up to \<open>2^53\<close> becomes its decimal digits.
\<close>

theorem C6_fields_normalised:
  assumes "http_method req = lit ''POST''" "URL_pathname P (url req) = Some (lit ''/api/news'')"
    and "verifyJWT P req = Some v" "body req = Some bodyText" "parse_body P bodyText = Some b"
    and "fst (handler P amb s req) = Inr r" "statusCode r = 201"
  shows "\<exists>t so im.
           r = created (new_item amb t so im) \<and> t \<noteq> []
           \<and> field P b ''text'' = Inr t \<and> field P b ''source'' = Inr so
           \<and> field P b ''imageUrl'' = Inr im
           \<and> (\<forall>k w. field P b k = Inr w \<longrightarrow>
                  (Get b (lit k) = None \<longrightarrow> w = [])
                \<and> (\<forall>u. Get b (lit k) = Some u \<and> \<not> truthy u \<longrightarrow> w = [])
                \<and> (\<forall>x. Get b (lit k) = Some (JStr x) \<longrightarrow> w = trim x)
                \<and> (\<forall>u. Get b (lit k) = Some u \<and> truthy u
                        \<longrightarrow> (\<exists>su. ToString P u = Inr su \<and> w = trim su))
                \<and> (\<forall>n. Get b (lit k) = Some (JNum (of_int n)) \<and> 0 < n
                          \<and> n \<le> 9007199254740992
                        \<longrightarrow> w = digits10 (nat n)))"
proof -
  have h: "handler P amb s req = handler_add P amb (cors fresh_response) s req"
    using assms(1,2) by (rule handler_news_post)
  have st: "statusCode (badRequest (cors fresh_response) ''text is required'') = 400"
    by (simp add: badRequest_def json_def setHeader_def)
  from assms(6,7) obtain t so im where
    f: "field P b ''text'' = Inr t" "field P b ''source'' = Inr so"
       "field P b ''imageUrl'' = Inr im" and ne: "t \<noteq> []"
    unfolding h using assms(3-5) st
    by (auto simp: handler_add_def split: sum.splits if_splits)
  have "fst (handler P amb s req) = Inr (created (new_item amb t so im))"
    unfolding h using assms(3-5) f ne by (rule handler_add_accepted(1))
  with assms(6) have r: "r = created (new_item amb t so im)" by simp
  have ch: "(Get b (lit k) = None \<longrightarrow> w = [])
            \<and> (\<forall>u. Get b (lit k) = Some u \<and> \<not> truthy u \<longrightarrow> w = [])
            \<and> (\<forall>x. Get b (lit k) = Some (JStr x) \<longrightarrow> w = trim x)
            \<and> (\<forall>u. Get b (lit k) = Some u \<and> truthy u
                    \<longrightarrow> (\<exists>su. ToString P u = Inr su \<and> w = trim su))
            \<and> (\<forall>n. Get b (lit k) = Some (JNum (of_int n)) \<and> 0 < n \<and> n \<le> 9007199254740992
                    \<longrightarrow> w = digits10 (nat n))"
    if w: "field P b k = Inr w" for k w
  proof (intro conjI allI impI)
    assume "Get b (lit k) = None"
    then show "w = []" using w by (simp add: field_absent)
  next
    fix u assume "Get b (lit k) = Some u \<and> \<not> truthy u"
    then show "w = []" using w by (simp add: field_falsy)
  next
    fix x assume "Get b (lit k) = Some (JStr x)"
    then show "w = trim x" using w by (simp add: field_string)
  next
    fix u assume "Get b (lit k) = Some u \<and> truthy u"
    then show "\<exists>su. ToString P u = Inr su \<and> w = trim su"
      using w by (auto simp: field_def split: sum.splits)
  next
    fix n assume "Get b (lit k) = Some (JNum (of_int n)) \<and> 0 < n \<and> n \<le> 9007199254740992"
    then show "w = digits10 (nat n)" using w by (simp add: field_number)
  qed
  from r ne f ch show ?thesis by blast
qed

text \<open>
  An instance: the body \<^verbatim>\<open>{"text":5,"source":" wire ","imageUrl":null}\<close> gives the text \<^verbatim>\<open>5\<close>,
  the source \<^verbatim>\<open>wire\<close> and no image URL.
\<close>

theorem C6_fields_normalised_witness:
  "http_method (request_with_token ''POST'' ''/api/news'' body_number) = lit ''POST''
   \<and> URL_pathname example_platform (url (request_with_token ''POST'' ''/api/news'' body_number))
       = Some (lit ''/api/news'')
   \<and> verifyJWT example_platform (request_with_token ''POST'' ''/api/news'' body_number)
       = Some example_admin
   \<and> parse_body example_platform body_number
       = Some (JObj [(lit ''text'', JNum 5), (lit ''source'', JStr (lit '' wire '')),
                     (lit ''imageUrl'', JNull)])
   \<and> statusCode (created (new_item example_ambient (lit ''5'') (lit ''wire'') [])) = 201
   \<and> fst (handler example_platform example_ambient state_empty
            (request_with_token ''POST'' ''/api/news'' body_number))
       = Inr (created (new_item example_ambient (lit ''5'') (lit ''wire'') []))
   \<and> field example_platform
         (JObj [(lit ''text'', JNum 5), (lit ''source'', JStr (lit '' wire '')),
                (lit ''imageUrl'', JNull)]) ''text''
       = Inr (digits10 5)"
proof -
  let ?req = "request_with_token ''POST'' ''/api/news'' body_number"
  let ?b = "JObj [(lit ''text'', JNum 5), (lit ''source'', JStr (lit '' wire '')),
                  (lit ''imageUrl'', JNull)]"
  let ?r = "created (new_item example_ambient (lit ''5'') (lit ''wire'') [])"
  have h1: "http_method ?req = lit ''POST''" by (simp add: request_with_token_def)
  have h2: "URL_pathname example_platform (url ?req) = Some (lit ''/api/news'')"
    by (simp add: ex_defs)
  have h3: "verifyJWT example_platform ?req = Some example_admin"
    by (simp add: ex_defs js_defs)
  have h4: "body ?req = Some body_number" by (simp add: request_with_token_def)
  have h5: "parse_body example_platform body_number = Some ?b"
    by (simp add: parse_body_def parse_body_number body_texts_not_empty)
  have h6: "fst (handler example_platform example_ambient state_empty ?req) = Inr ?r"
    by (simp add: ex_defs js_defs digits10.simps)
  have h7: "statusCode ?r = 201" by (simp add: created_def json_def setHeader_def)
  have g: "Get ?b (lit ''text'') = Some (JNum (of_int 5))" by simp
  note th = C6_fields_normalised[OF h1 h2 h3 h4 h5 h6 h7]
  then obtain t so im where
    t: "field example_platform ?b ''text'' = Inr t"
    and ch: "\<forall>k w. field example_platform ?b k = Inr w \<longrightarrow>
                  (Get ?b (lit k) = None \<longrightarrow> w = [])
                \<and> (\<forall>u. Get ?b (lit k) = Some u \<and> \<not> truthy u \<longrightarrow> w = [])
                \<and> (\<forall>x. Get ?b (lit k) = Some (JStr x) \<longrightarrow> w = trim x)
                \<and> (\<forall>u. Get ?b (lit k) = Some u \<and> truthy u
                        \<longrightarrow> (\<exists>su. ToString example_platform u = Inr su \<and> w = trim su))
                \<and> (\<forall>n. Get ?b (lit k) = Some (JNum (of_int n)) \<and> 0 < n
                          \<and> n \<le> 9007199254740992
                        \<longrightarrow> w = digits10 (nat n))"
    by (elim exE conjE)
  from ch[rule_format, OF t] have
    "\<forall>n. Get ?b (lit ''text'') = Some (JNum (of_int n)) \<and> 0 < n \<and> n \<le> 9007199254740992
         \<longrightarrow> t = digits10 (nat n)"
    by (elim conjE)
  from this[rule_format, of 5] g have "t = digits10 (nat 5)" by simp
  with t have "field example_platform ?b ''text'' = Inr (digits10 5)" by simp
  with h1 h2 h3 h5 h6 h7 show ?thesis by blast
qed

section \<open>C7: one kind of rejection\<close>

text \<open>
  C7: the token authenticator has one rejection. \<^verbatim>\<open>verifyJWT\<close> gives \<^verbatim>\<open>{ok: false}\<close> when the
  header is missing, when its scheme is not \<^verbatim>\<open>Bearer\<close> (in any case of the letters), when
  the pattern does not match, and when \<^verbatim>\<open>jwt.verify\<close> throws for the token (bad signature,
  expired, malformed: the \<^verbatim>\<open>catch\<close> keeps none of the causes). It accepts exactly when the
  header is \<^verbatim>\<open>Bearer\<close>, white space, and a non-empty token without line terminator that
  \<^verbatim>\<open>jwt.verify\<close> accepts under \<^verbatim>\<open>JWT_SECRET\<close>, the secret with which the login signs. On the
  route that adds an item every failure gives the same answer, \<^verbatim>\<open>401\<close> with \<^verbatim>\<open>Unauthorized\<close>,
  and leaves the state as it was.
\<close>

theorem C7_one_rejection:
  "(authorization req = None \<longrightarrow> verifyJWT P req = None)
   \<and> (\<forall>a. authorization req = Some a \<and> map toUpperASCII (take 6 a) \<noteq> lit ''BEARER''
          \<longrightarrow> verifyJWT P req = None)
   \<and> (\<forall>a. authorization req = Some a \<and> match_Bearer a = None \<longrightarrow> verifyJWT P req = None)
   \<and> (\<forall>a tok. authorization req = Some a \<and> match_Bearer a = Some tok
          \<longrightarrow> verifyJWT P req = jwt_verify P tok (JWT_SECRET P))
   \<and> (\<forall>p. verifyJWT P req = Some p
          \<longrightarrow> (\<exists>a tok. authorization req = Some a
                 \<and> map toUpperASCII (take 6 a) = lit ''BEARER''
                 \<and> (\<exists>i\<ge>1. tok = drop (6 + i) a \<and> list_all isSpace (take i (drop 6 a)))
                 \<and> tok \<noteq> [] \<and> \<not> list_ex isLineTerminator tok
                 \<and> jwt_verify P tok (JWT_SECRET P) = Some p))
   \<and> (verifyJWT P req = None \<and> http_method req = lit ''POST''
        \<and> URL_pathname P (url req) = Some (lit ''/api/news'')
      \<longrightarrow> handler P amb s req = (Inr (unauthorized (cors fresh_response) None), s))
   \<and> statusCode (unauthorized (cors fresh_response) None) = 401
   \<and> payload (unauthorized (cors fresh_response) None)
       = Some (JObj [(lit ''ok'', JBool False), (lit ''error'', JStr (lit ''Unauthorized''))])
   \<and> (\<forall>r. http_method req = lit ''POST'' \<and> URL_pathname P (url req) = Some (lit ''/api/login'')
           \<and> fst (handler P amb s req) = Inr r \<and> statusCode r = 200
          \<longrightarrow> payload r
              = Some (JObj [(lit ''ok'', JBool True),
                            (lit ''token'',
                             JStr (jwt_sign P
                                     (JObj [(lit ''sub'', JStr (ADMIN_USER P)),
                                            (lit ''role'', JStr (lit ''admin''))])
                                     (JWT_SECRET P) (lit ''7d'')))]))"
proof -
  have c1: "verifyJWT P req = None" if "authorization req = None"
    using that by (simp add: verifyJWT_def match_Bearer_def lit_def)
  have c2: "verifyJWT P req = None"
    if "authorization req = Some a \<and> map toUpperASCII (take 6 a) \<noteq> lit ''BEARER''" for a
    using that by (simp add: verifyJWT_def match_Bearer_def)
  have c3: "verifyJWT P req = None" if "authorization req = Some a \<and> match_Bearer a = None" for a
    using that by (simp add: verifyJWT_def)
  have c4: "verifyJWT P req = jwt_verify P tok (JWT_SECRET P)"
    if "authorization req = Some a \<and> match_Bearer a = Some tok" for a tok
    using that by (simp add: verifyJWT_def)
  have c5: "\<exists>a tok. authorization req = Some a
                 \<and> map toUpperASCII (take 6 a) = lit ''BEARER''
                 \<and> (\<exists>i\<ge>1. tok = drop (6 + i) a \<and> list_all isSpace (take i (drop 6 a)))
                 \<and> tok \<noteq> [] \<and> \<not> list_ex isLineTerminator tok
                 \<and> jwt_verify P tok (JWT_SECRET P) = Some p"
    if v: "verifyJWT P req = Some p" for p
  proof -
    from v c1 obtain a where a: "authorization req = Some a" by (cases "authorization req") auto
    with v c3 obtain tok where tok: "match_Bearer a = Some tok" by (cases "match_Bearer a") auto
    from c4 a tok v have "jwt_verify P tok (JWT_SECRET P) = Some p" by simp
    with a match_Bearer_Some[OF tok] show ?thesis by blast
  qed
  have c6: "handler P amb s req = (Inr (unauthorized (cors fresh_response) None), s)"
    if "verifyJWT P req = None \<and> http_method req = lit ''POST''
        \<and> URL_pathname P (url req) = Some (lit ''/api/news'')"
    using that by (simp add: handler_news_post handler_add_rejects)
  have c9: "payload r
              = Some (JObj [(lit ''ok'', JBool True),
                            (lit ''token'',
                             JStr (jwt_sign P
                                     (JObj [(lit ''sub'', JStr (ADMIN_USER P)),
                                            (lit ''role'', JStr (lit ''admin''))])
                                     (JWT_SECRET P) (lit ''7d'')))])"
    if "http_method req = lit ''POST'' \<and> URL_pathname P (url req) = Some (lit ''/api/login'')
           \<and> fst (handler P amb s req) = Inr r \<and> statusCode r = 200" for r
  proof -
    from that have m: "http_method req = lit ''POST''"
      and u: "URL_pathname P (url req) = Some (lit ''/api/login'')"
      and f: "fst (handler P amb s req) = Inr r" and st: "statusCode r = 200"
      by simp_all
    from f have "handler_login P (cors fresh_response) req = r"
      unfolding handler_login_route[OF m u] by simp
    with st have "handler_login P (cors fresh_response) req = r" "statusCode r = 200"
      by simp_all
    then show ?thesis
      by (auto simp: handler_login_def Let_def badRequest_def unauthorized_def json_def
            setHeader_def split: option.splits if_splits)
  qed
  from c1 c2 c3 c4 c5 c6 c9 unauthorized_response[of "cors fresh_response"]
  show ?thesis by (intro conjI allI impI) blast+
qed

text \<open>
  Instances: no header, the scheme \<^verbatim>\<open>Basic\<close>, and a token that \<^verbatim>\<open>jwt.verify\<close> refuses are
  answered alike; the token \<^verbatim>\<open>good\<close> is accepted.
\<close>

theorem C7_one_rejection_witness:
  "authorization (request_without_token ''POST'' ''/api/news'' body_hello) = None
   \<and> verifyJWT example_platform (request_without_token ''POST'' ''/api/news'' body_hello) = None
   \<and> handler example_platform example_ambient state_hello
         (request_without_token ''POST'' ''/api/news'' body_hello)
       = (Inr (unauthorized (cors fresh_response) None), state_hello)
   \<and> match_Bearer (lit ''Basic good'') = None
   \<and> handler example_platform example_ambient state_hello
         (request_with_header ''POST'' ''/api/news'' ''Basic good'' body_hello)
       = (Inr (unauthorized (cors fresh_response) None), state_hello)
   \<and> match_Bearer (lit ''Bearer expired'') = Some (lit ''expired'')
   \<and> jwt_verify example_platform (lit ''expired'') (JWT_SECRET example_platform) = None
   \<and> handler example_platform example_ambient state_hello
         (request_with_header ''POST'' ''/api/news'' ''Bearer expired'' body_hello)
       = (Inr (unauthorized (cors fresh_response) None), state_hello)
   \<and> verifyJWT example_platform (request_with_token ''POST'' ''/api/news'' body_hello)
       = Some example_admin"
proof -
  let ?none = "request_without_token ''POST'' ''/api/news'' body_hello"
  let ?basic = "request_with_header ''POST'' ''/api/news'' ''Basic good'' body_hello"
  let ?old = "request_with_header ''POST'' ''/api/news'' ''Bearer expired'' body_hello"
  have n1: "authorization ?none = None" by (simp add: request_without_token_def)
  have n2: "http_method ?none = lit ''POST''
            \<and> URL_pathname example_platform (url ?none) = Some (lit ''/api/news'')"
    by (simp add: ex_defs)
  note th = C7_one_rejection[of ?none example_platform example_ambient state_hello]
  from th n1 have n3: "verifyJWT example_platform ?none = None" by (elim conjE) simp
  from th n3 n2 have n4: "handler example_platform example_ambient state_hello ?none
          = (Inr (unauthorized (cors fresh_response) None), state_hello)"
    by (elim conjE) simp
  have b1: "match_Bearer (lit ''Basic good'') = None" by (simp add: ex_defs js_defs)
  have b2: "handler example_platform example_ambient state_hello ?basic
          = (Inr (unauthorized (cors fresh_response) None), state_hello)"
    by (simp add: ex_defs js_defs)
  have o1: "match_Bearer (lit ''Bearer expired'') = Some (lit ''expired'')"
    by (simp add: ex_defs js_defs)
  have o2: "jwt_verify example_platform (lit ''expired'') (JWT_SECRET example_platform) = None"
    by (simp add: ex_defs js_defs)
  have o3: "handler example_platform example_ambient state_hello ?old
          = (Inr (unauthorized (cors fresh_response) None), state_hello)"
    by (simp add: ex_defs js_defs)
  have g: "verifyJWT example_platform (request_with_token ''POST'' ''/api/news'' body_hello)
          = Some example_admin"
    by (simp add: ex_defs js_defs)
  from n1 n3 n4 b1 b2 o1 o2 o3 g show ?thesis by blast
qed

section \<open>C8: an unauthenticated add never looks at the body\<close>

text \<open>
  C8, as the specification has it: every \<^verbatim>\<open>POST /news\<close> without a valid authorization header
  is answered \<^verbatim>\<open>401\<close>, whatever the body.

  The handler compares the path name with \<^verbatim>\<open>/api/news\<close> (line 138). A \<^verbatim>\<open>POST\<close> to \<^verbatim>\<open>/news\<close>
  matches no branch and is answered \<^verbatim>\<open>404\<close>, with or without a token.
\<close>

theorem C8_counterexample:
  "verifyJWT example_platform (request_without_token ''POST'' ''/news'' body_hello) = None
   \<and> handler example_platform example_ambient state_hello
         (request_without_token ''POST'' ''/news'' body_hello)
       = (Inr (notFound (cors fresh_response)), state_hello)
   \<and> statusCode (notFound (cors fresh_response)) = 404"
  by (simp add: ex_defs js_defs)

text \<open>
  C8, amended: every \<^verbatim>\<open>POST\<close> to \<^verbatim>\<open>/api/news\<close> without a valid authorization header is
  answered \<^verbatim>\<open>401\<close> before the body is read: whatever the body is (also a stream that fails),
  and whatever the clock and the random generator give, the answer is the same and the
  state is as before.
\<close>

theorem C8_unauthenticated_add:
  assumes "http_method req = lit ''POST''" "URL_pathname P (url req) = Some (lit ''/api/news'')"
    and "verifyJWT P req = None"
  shows "handler P amb s (req\<lparr>body := bd\<rparr>) = (Inr (unauthorized (cors fresh_response) None), s)
         \<and> handler P amb' s (req\<lparr>body := bd'\<rparr>) = handler P amb s (req\<lparr>body := bd\<rparr>)
         \<and> statusCode (unauthorized (cors fresh_response) None) = 401
         \<and> payload (unauthorized (cors fresh_response) None)
             = Some (JObj [(lit ''ok'', JBool False), (lit ''error'', JStr (lit ''Unauthorized''))])"
proof -
  have r: "handler P a s (req\<lparr>body := x\<rparr>) = (Inr (unauthorized (cors fresh_response) None), s)"
    for a x
  proof -
    have "http_method (req\<lparr>body := x\<rparr>) = lit ''POST''" using assms(1) by simp
    moreover have "URL_pathname P (url (req\<lparr>body := x\<rparr>)) = Some (lit ''/api/news'')"
      using assms(2) by simp
    ultimately have "handler P a s (req\<lparr>body := x\<rparr>)
                       = handler_add P a (cors fresh_response) s (req\<lparr>body := x\<rparr>)"
      by (rule handler_news_post)
    moreover have "verifyJWT P (req\<lparr>body := x\<rparr>) = None"
      using assms(3) by (simp add: verifyJWT_body)
    ultimately show ?thesis by (simp add: handler_add_rejects)
  qed
  from r[of amb bd] r[of amb' bd'] unauthorized_response[of "cors fresh_response"]
  show ?thesis by simp
qed

text \<open>An instance: two bodies, one of them an empty text, and a failing stream.\<close>

theorem C8_unauthenticated_add_witness:
  "http_method (request_without_token ''POST'' ''/api/news'' body_hello) = lit ''POST''
   \<and> URL_pathname example_platform (url (request_without_token ''POST'' ''/api/news'' body_hello))
       = Some (lit ''/api/news'')
   \<and> verifyJWT example_platform (request_without_token ''POST'' ''/api/news'' body_hello) = None
   \<and> handler example_platform example_ambient state_hello
         ((request_without_token ''POST'' ''/api/news'' body_hello)\<lparr>body := Some body_blank\<rparr>)
       = (Inr (unauthorized (cors fresh_response) None), state_hello)
   \<and> handler example_platform example_ambient state_hello
         ((request_without_token ''POST'' ''/api/news'' body_hello)\<lparr>body := None\<rparr>)
       = (Inr (unauthorized (cors fresh_response) None), state_hello)"
proof -
  let ?req = "request_without_token ''POST'' ''/api/news'' body_hello"
  have h1: "http_method ?req = lit ''POST''" by (simp add: request_without_token_def)
  have h2: "URL_pathname example_platform (url ?req) = Some (lit ''/api/news'')"
    by (simp add: ex_defs)
  have h3: "verifyJWT example_platform ?req = None" by (simp add: ex_defs js_defs)
  note th = C8_unauthenticated_add[OF h1 h2 h3, where amb = example_ambient and s = state_hello]
  have a: "handler example_platform example_ambient state_hello (?req\<lparr>body := Some body_blank\<rparr>)
             = (Inr (unauthorized (cors fresh_response) None), state_hello)"
    by (rule th[where bd = "Some body_blank", THEN conjunct1])
  have b: "handler example_platform example_ambient state_hello (?req\<lparr>body := None\<rparr>)
             = (Inr (unauthorized (cors fresh_response) None), state_hello)"
    by (rule th[where bd = None, THEN conjunct1])
  from h1 h2 h3 a b show ?thesis by blast
qed

section \<open>C9: the health route and unknown routes\<close>

text \<open>
  C9, as the specification has it: every \<^verbatim>\<open>GET\<close> to the path \<^verbatim>\<open>/health\<close> is answered \<^verbatim>\<open>200\<close> with
  \<^verbatim>\<open>{ok:true, status:"up"}\<close>, and every request outside the route table is answered \<^verbatim>\<open>404\<close>.

  The handler compares the path name with \<^verbatim>\<open>/api/health\<close> (line 102): a \<^verbatim>\<open>GET\<close> to \<^verbatim>\<open>/health\<close> is
  answered \<^verbatim>\<open>404\<close>. And a request with the method \<^verbatim>\<open>OPTIONS\<close> is answered \<^verbatim>\<open>204\<close> without a body
  before the path is looked at (lines 93 to 96), also for a path of no route.
\<close>

theorem C9_counterexample:
  "handler example_platform example_ambient state_hello (request_without_token ''GET'' ''/health'' [])
     = (Inr (notFound (cors fresh_response)), state_hello)
   \<and> statusCode (notFound (cors fresh_response)) = 404
   \<and> (lit ''OPTIONS'', lit ''/bogus'') \<notin> set route_table
   \<and> handler example_platform example_ambient state_hello
         (request_without_token ''OPTIONS'' ''/bogus'' [])
       = (Inr ((cors fresh_response)\<lparr>statusCode := 204\<rparr>), state_hello)"
  by (simp add: ex_defs js_defs)

text \<open>
  C9, amended: every \<^verbatim>\<open>GET\<close> whose path name is \<^verbatim>\<open>/api/health\<close> is answered \<^verbatim>\<open>200\<close> with
  \<^verbatim>\<open>{ok:true, status:"up"}\<close>, whatever its headers and body; every request whose method is not
  \<^verbatim>\<open>OPTIONS\<close> and whose method and path name are not in the route table (\<^verbatim>\<open>GET /api/health\<close>,
  \<^verbatim>\<open>POST /api/login\<close>, \<^verbatim>\<open>GET /api/news\<close>, \<^verbatim>\<open>POST /api/news\<close>, \<^verbatim>\<open>POST /api/upload\<close>) is answered \<^verbatim>\<open>404\<close>
  with \<^verbatim>\<open>{ok:false, error:"Not found"}\<close>; every \<^verbatim>\<open>OPTIONS\<close> request is answered \<^verbatim>\<open>204\<close> without a
  body. None of them changes the state.
\<close>

theorem C9_health_and_not_found:
  "(http_method req = lit ''GET'' \<and> URL_pathname P (url req) = Some (lit ''/api/health'')
      \<longrightarrow> handler P amb s req
            = (Inr (json (cors fresh_response) 200
                     (JObj [(lit ''ok'', JBool True), (lit ''status'', JStr (lit ''up''))])), s))
   \<and> statusCode (json (cors fresh_response) 200
                    (JObj [(lit ''ok'', JBool True), (lit ''status'', JStr (lit ''up''))])) = 200
   \<and> (\<forall>p. http_method req \<noteq> lit ''OPTIONS'' \<and> URL_pathname P (url req) = Some p
            \<and> (http_method req, p) \<notin> set route_table
          \<longrightarrow> handler P amb s req = (Inr (notFound (cors fresh_response)), s))
   \<and> statusCode (notFound (cors fresh_response)) = 404
   \<and> payload (notFound (cors fresh_response))
       = Some (JObj [(lit ''ok'', JBool False), (lit ''error'', JStr (lit ''Not found''))])
   \<and> (http_method req = lit ''OPTIONS''
      \<longrightarrow> handler P amb s req = (Inr ((cors fresh_response)\<lparr>statusCode := 204\<rparr>), s)
          \<and> payload ((cors fresh_response)\<lparr>statusCode := 204\<rparr>) = None)"
proof -
  have a: "handler P amb s req
            = (Inr (json (cors fresh_response) 200
                     (JObj [(lit ''ok'', JBool True), (lit ''status'', JStr (lit ''up''))])), s)"
    if "http_method req = lit ''GET'' \<and> URL_pathname P (url req) = Some (lit ''/api/health'')"
    using that by (simp add: handler_def lit_def)
  have b: "statusCode (json (cors fresh_response) 200
                    (JObj [(lit ''ok'', JBool True), (lit ''status'', JStr (lit ''up''))])) = 200"
    by (simp add: json_def setHeader_def)
  have c: "handler P amb s req = (Inr (notFound (cors fresh_response)), s)"
    if "http_method req \<noteq> lit ''OPTIONS'' \<and> URL_pathname P (url req) = Some p
            \<and> (http_method req, p) \<notin> set route_table" for p
    using that by (auto simp: handler_def route_table_def)
  have d: "statusCode (notFound (cors fresh_response)) = 404"
    "payload (notFound (cors fresh_response))
       = Some (JObj [(lit ''ok'', JBool False), (lit ''error'', JStr (lit ''Not found''))])"
    by (simp_all add: notFound_def json_def setHeader_def)
  have e: "handler P amb s req = (Inr ((cors fresh_response)\<lparr>statusCode := 204\<rparr>), s)
          \<and> payload ((cors fresh_response)\<lparr>statusCode := 204\<rparr>) = None"
    if "http_method req = lit ''OPTIONS''"
    using that by (simp add: handler_def cors_def setHeader_def fresh_response_def)
  from a b c d e show ?thesis by blast
qed

text \<open>
  Instances: \<^verbatim>\<open>GET /api/health\<close> without a header, \<^verbatim>\<open>GET /bogus\<close>, and \<^verbatim>\<open>OPTIONS /api/news\<close>.
\<close>

theorem C9_health_and_not_found_witness:
  "http_method (request_without_token ''GET'' ''/api/health'' []) = lit ''GET''
   \<and> URL_pathname example_platform (url (request_without_token ''GET'' ''/api/health'' []))
       = Some (lit ''/api/health'')
   \<and> authorization (request_without_token ''GET'' ''/api/health'' []) = None
   \<and> handler example_platform example_ambient state_hello
         (request_without_token ''GET'' ''/api/health'' [])
       = (Inr (json (cors fresh_response) 200
                (JObj [(lit ''ok'', JBool True), (lit ''status'', JStr (lit ''up''))])),
          state_hello)
   \<and> http_method (request_without_token ''GET'' ''/bogus'' []) \<noteq> lit ''OPTIONS''
   \<and> URL_pathname example_platform (url (request_without_token ''GET'' ''/bogus'' []))
       = Some (lit ''/bogus'')
   \<and> (http_method (request_without_token ''GET'' ''/bogus'' []), lit ''/bogus'') \<notin> set route_table
   \<and> handler example_platform example_ambient state_hello
         (request_without_token ''GET'' ''/bogus'' [])
       = (Inr (notFound (cors fresh_response)), state_hello)
   \<and> http_method (request_without_token ''OPTIONS'' ''/api/news'' []) = lit ''OPTIONS''
   \<and> handler example_platform example_ambient state_hello
         (request_without_token ''OPTIONS'' ''/api/news'' [])
       = (Inr ((cors fresh_response)\<lparr>statusCode := 204\<rparr>), state_hello)"
proof -
  let ?health = "request_without_token ''GET'' ''/api/health'' []"
  let ?bogus = "request_without_token ''GET'' ''/bogus'' []"
  let ?opt = "request_without_token ''OPTIONS'' ''/api/news'' []"
  have h1: "http_method ?health = lit ''GET''" by (simp add: request_without_token_def)
  have h2: "URL_pathname example_platform (url ?health) = Some (lit ''/api/health'')"
    by (simp add: ex_defs)
  have h3: "authorization ?health = None" by (simp add: request_without_token_def)
  have b1: "http_method ?bogus \<noteq> lit ''OPTIONS''" by (simp add: ex_defs)
  have b2: "URL_pathname example_platform (url ?bogus) = Some (lit ''/bogus'')"
    by (simp add: ex_defs)
  have b3: "(http_method ?bogus, lit ''/bogus'') \<notin> set route_table"
    by (simp add: ex_defs js_defs)
  have o1: "http_method ?opt = lit ''OPTIONS''" by (simp add: request_without_token_def)
  have r1: "handler example_platform example_ambient state_hello ?health
              = (Inr (json (cors fresh_response) 200
                       (JObj [(lit ''ok'', JBool True), (lit ''status'', JStr (lit ''up''))])),
                 state_hello)"
    using C9_health_and_not_found[of ?health example_platform example_ambient state_hello] h1 h2
    by (elim conjE) simp
  have r2: "handler example_platform example_ambient state_hello ?bogus
              = (Inr (notFound (cors fresh_response)), state_hello)"
    using C9_health_and_not_found[of ?bogus example_platform example_ambient state_hello] b1 b2 b3
    by (elim conjE) blast
  have r3: "handler example_platform example_ambient state_hello ?opt
              = (Inr ((cors fresh_response)\<lparr>statusCode := 204\<rparr>), state_hello)"
    using C9_health_and_not_found[of ?opt example_platform example_ambient state_hello] o1
    by (elim conjE) simp
  from h1 h2 h3 b1 b2 b3 o1 r1 r2 r3 show ?thesis by blast
qed

section \<open>C10: an empty body is the empty object\<close>

text \<open>
  C10, as the claim has it: an authenticated \<^verbatim>\<open>POST /news\<close> with an empty body is answered
  \<^verbatim>\<open>400\<close> with \<^verbatim>\<open>text is required\<close>, and a \<^verbatim>\<open>POST /login\<close> with an empty body \<^verbatim>\<open>401\<close> with
  \<^verbatim>\<open>Invalid credentials\<close>.

  The handler compares the path name with \<^verbatim>\<open>/api/news\<close> and \<^verbatim>\<open>/api/login\<close> (lines 138 and 107):
  on the paths \<^verbatim>\<open>/news\<close> and \<^verbatim>\<open>/login\<close> both requests are answered \<^verbatim>\<open>404\<close>.
\<close>

theorem C10_counterexample:
  "verifyJWT example_platform (request_with_token ''POST'' ''/news'' []) = Some example_admin
   \<and> handler example_platform example_ambient state_hello (request_with_token ''POST'' ''/news'' [])
       = (Inr (notFound (cors fresh_response)), state_hello)
   \<and> handler example_platform example_ambient state_hello
         (request_without_token ''POST'' ''/login'' [])
       = (Inr (notFound (cors fresh_response)), state_hello)
   \<and> statusCode (notFound (cors fresh_response)) = 404"
  by (simp add: ex_defs js_defs)

text \<open>
  C10, amended: a body that is empty is parsed as \<^verbatim>\<open>{}\<close>, never refused as malformed: an
  authenticated \<^verbatim>\<open>POST\<close> to \<^verbatim>\<open>/api/news\<close> with an empty body is answered \<^verbatim>\<open>400\<close> with
  \<^verbatim>\<open>text is required\<close>, and a \<^verbatim>\<open>POST\<close> to \<^verbatim>\<open>/api/login\<close> with an empty body \<^verbatim>\<open>401\<close> with
  \<^verbatim>\<open>Invalid credentials\<close>. (That \<^verbatim>\<open>JSON.parse("{}")\<close> is the empty object is the one fact about
  the platform that is used.)
\<close>

theorem C10_empty_body:
  assumes "JSON_parse P (lit ''{}'') = Some (JObj [])"
    and "http_method req = lit ''POST''" "body req = Some []"
  shows "(URL_pathname P (url req) = Some (lit ''/api/news'') \<and> verifyJWT P req = Some v
            \<longrightarrow> handler P amb s req
                  = (Inr (badRequest (cors fresh_response) ''text is required''), s))
         \<and> (URL_pathname P (url req) = Some (lit ''/api/login'')
            \<longrightarrow> handler P amb s req
                  = (Inr (unauthorized (cors fresh_response) (Some ''Invalid credentials'')), s))
         \<and> statusCode (badRequest (cors fresh_response) ''text is required'') = 400
         \<and> payload (badRequest (cors fresh_response) ''text is required'')
             = Some (JObj [(lit ''ok'', JBool False),
                           (lit ''error'', JStr (lit ''text is required''))])
         \<and> statusCode (unauthorized (cors fresh_response) (Some ''Invalid credentials'')) = 401
         \<and> payload (unauthorized (cors fresh_response) (Some ''Invalid credentials''))
             = Some (JObj [(lit ''ok'', JBool False),
                           (lit ''error'', JStr (lit ''Invalid credentials''))])"
proof -
  have pb: "parse_body P [] = Some (JObj [])" using assms(1) by (simp add: parse_body_def)
  have f: "field P (JObj []) k = Inr []" for k by (simp add: field_absent)
  have a: "handler P amb s req = (Inr (badRequest (cors fresh_response) ''text is required''), s)"
    if "URL_pathname P (url req) = Some (lit ''/api/news'') \<and> verifyJWT P req = Some v"
  proof -
    from that assms(2) have "handler P amb s req = handler_add P amb (cors fresh_response) s req"
      by (simp add: handler_news_post)
    then show ?thesis using that assms(3) pb f by (simp add: handler_add_def)
  qed
  have b: "handler P amb s req
             = (Inr (unauthorized (cors fresh_response) (Some ''Invalid credentials'')), s)"
    if "URL_pathname P (url req) = Some (lit ''/api/login'')"
  proof -
    from that assms(2)
    have "handler P amb s req = (Inr (handler_login P (cors fresh_response) req), s)"
      by (simp add: handler_login_route)
    then show ?thesis using assms(3) pb by (simp add: handler_login_def)
  qed
  have c: "statusCode (badRequest (cors fresh_response) ''text is required'') = 400"
    "payload (badRequest (cors fresh_response) ''text is required'')
       = Some (JObj [(lit ''ok'', JBool False), (lit ''error'', JStr (lit ''text is required''))])"
    "statusCode (unauthorized (cors fresh_response) (Some ''Invalid credentials'')) = 401"
    "payload (unauthorized (cors fresh_response) (Some ''Invalid credentials''))
       = Some (JObj [(lit ''ok'', JBool False), (lit ''error'', JStr (lit ''Invalid credentials''))])"
    by (simp_all add: badRequest_def unauthorized_def json_def setHeader_def)
  from a b c show ?thesis by blast
qed

text \<open>An instance: both requests with an empty body on the example platform.\<close>

theorem C10_empty_body_witness:
  "JSON_parse example_platform (lit ''{}'') = Some (JObj [])
   \<and> http_method (request_with_token ''POST'' ''/api/news'' []) = lit ''POST''
   \<and> body (request_with_token ''POST'' ''/api/news'' []) = Some []
   \<and> URL_pathname example_platform (url (request_with_token ''POST'' ''/api/news'' []))
       = Some (lit ''/api/news'')
   \<and> verifyJWT example_platform (request_with_token ''POST'' ''/api/news'' []) = Some example_admin
   \<and> handler example_platform example_ambient state_hello
         (request_with_token ''POST'' ''/api/news'' [])
       = (Inr (badRequest (cors fresh_response) ''text is required''), state_hello)
   \<and> http_method (request_without_token ''POST'' ''/api/login'' []) = lit ''POST''
   \<and> body (request_without_token ''POST'' ''/api/login'' []) = Some []
   \<and> URL_pathname example_platform (url (request_without_token ''POST'' ''/api/login'' []))
       = Some (lit ''/api/login'')
   \<and> handler example_platform example_ambient state_hello
         (request_without_token ''POST'' ''/api/login'' [])
       = (Inr (unauthorized (cors fresh_response) (Some ''Invalid credentials'')), state_hello)"
proof -
  let ?add = "request_with_token ''POST'' ''/api/news'' []"
  let ?login = "request_without_token ''POST'' ''/api/login'' []"
  have p: "JSON_parse example_platform (lit ''{}'') = Some (JObj [])" by (rule parse_empty_object)
  have a1: "http_method ?add = lit ''POST''" by (simp add: request_with_token_def)
  have a2: "body ?add = Some []" by (simp add: request_with_token_def)
  have a3: "URL_pathname example_platform (url ?add) = Some (lit ''/api/news'')"
    by (simp add: ex_defs)
  have a4: "verifyJWT example_platform ?add = Some example_admin" by (simp add: ex_defs js_defs)
  have l1: "http_method ?login = lit ''POST''" by (simp add: request_without_token_def)
  have l2: "body ?login = Some []" by (simp add: request_without_token_def)
  have l3: "URL_pathname example_platform (url ?login) = Some (lit ''/api/login'')"
    by (simp add: ex_defs)
  have r1: "handler example_platform example_ambient state_hello ?add
              = (Inr (badRequest (cors fresh_response) ''text is required''), state_hello)"
    using C10_empty_body[OF p a1 a2, of example_admin example_ambient state_hello] a3 a4
    by (elim conjE) simp
  have r2: "handler example_platform example_ambient state_hello ?login
              = (Inr (unauthorized (cors fresh_response) (Some ''Invalid credentials'')), state_hello)"
    using C10_empty_body[OF p l1 l2, of example_admin example_ambient state_hello] l3
    by (elim conjE) simp
  from p a1 a2 a3 a4 l1 l2 l3 r1 r2 show ?thesis by blast
qed

end
